theory Spec2Isabelle
  imports Complex_Main "HOL-Library.Multiset"
begin

section \<open>Data model\<close>

text \<open>
  The viewer keeps JavaScript objects that are shared by reference: a component record is
  reachable from the model's \<^verbatim>\<open>userData.components\<close>, from each entry of \<^verbatim>\<open>window.labels\<close>
  and from the toggle check boxes; an overlay element is reachable from the global label
  array and from the component's own \<^verbatim>\<open>labels\<close> array. Objects are therefore named by
  references, and their mutable fields live in stores indexed by reference. The scene
  graph is a tree of nodes; a node carries the reference of the object it stands for.
\<close>

type_synonym ref = nat

type_synonym vec3 = "real \<times> real \<times> real"

text \<open>The classes of scene objects the program creates; a \<^verbatim>\<open>CSS2DObject\<close> holds its element.\<close>

datatype obj_kind = SceneObj | GroupObj | MeshObj | LightObj | CSS2DObject ref

datatype object3d = Object3D (oid: ref) (okind: obj_kind) (children: "object3d list")

text \<open>
  Where an overlay element hangs in the document: below \<^verbatim>\<open>window.labelContainer\<close> (the
  label renderer puts it there), or somewhere else.
\<close>

datatype dom_parent = InLabelContainer | Elsewhere

record dom_element =
  className :: string
  textContent :: string
  display :: string
  opacity :: string
  parentNode :: "dom_parent option"

text \<open>An entry of a component's own \<^verbatim>\<open>labels\<close> array: \<^verbatim>\<open>{object, element}\<close>.\<close>

record label_handle =
  h_object :: ref
  h_element :: ref

text \<open>An entry of \<^verbatim>\<open>window.labels\<close>: \<^verbatim>\<open>{object, element, component}\<close>.\<close>

record label_info =
  li_object :: "ref option"
  li_element :: ref
  li_component :: "ref option"

text \<open>
  A component record \<^verbatim>\<open>{name, displayName, mesh | group, visible}\<close>; \<^verbatim>\<open>labels\<close> is
  undefined until the first label is added.
\<close>

record component =
  c_name :: string
  c_displayName :: string
  c_mesh :: "ref option"
  c_group :: "ref option"
  c_visible :: bool
  c_labels :: "label_handle list option"

text \<open>A model returned by a factory: the root group and its \<^verbatim>\<open>userData.components\<close>.\<close>

record model3d =
  root :: object3d
  components :: "ref list"

record viewer =
  scene :: object3d
  objVisible :: "ref \<Rightarrow> bool"
  worldPosition :: "ref \<Rightarrow> vec3"
  elements :: "ref \<Rightarrow> dom_element"
  comps :: "ref \<Rightarrow> component"
  window_labels :: "label_info list"
  labelContainer :: bool
  currentModel :: "model3d option"
  crossSectionEnabled :: bool
  clippingPlanes :: "real list"
  fossilType :: string
  componentToggles :: "(ref \<times> bool) list"
  fossilInfo :: string
  cameraPosition :: vec3
  nextRef :: ref

section \<open>Scene graph operations of the rendering engine\<close>

text \<open>\<^verbatim>\<open>Object3D.traverse\<close>: the object itself, then its descendants, depth first.\<close>

fun traverse :: "object3d \<Rightarrow> object3d list" where
  "traverse (Object3D r k cs) = Object3D r k cs # concat (map traverse cs)"

text \<open>\<^verbatim>\<open>object instanceof CSS2DObject\<close>\<close>

fun isCSS2DObject :: "object3d \<Rightarrow> bool" where
  "isCSS2DObject (Object3D r (CSS2DObject e) cs) = True"
| "isCSS2DObject (Object3D r k cs) = False"

fun set_children :: "object3d \<Rightarrow> object3d list \<Rightarrow> object3d" where
  "set_children (Object3D r k cs) cs' = Object3D r k cs'"

text \<open>\<^verbatim>\<open>element.parentNode.removeChild(element)\<close>, guarded by \<^verbatim>\<open>element.parentNode\<close>.\<close>

definition removeFromParent :: "ref \<Rightarrow> viewer \<Rightarrow> viewer" where
  "removeFromParent e s =
     (if parentNode (elements s e) \<noteq> None
      then s\<lparr>elements := (elements s)(e := (elements s e)\<lparr>parentNode := None\<rparr>)\<rparr>
      else s)"

text \<open>
  The listener every \<^verbatim>\<open>CSS2DObject\<close> installs for its \<^verbatim>\<open>removed\<close> event: it walks the
  removed object and takes the element of each label it finds out of the document.
\<close>

fun onRemoved :: "object3d \<Rightarrow> viewer \<Rightarrow> viewer" where
  "onRemoved (Object3D r (CSS2DObject e) cs) s = removeFromParent e s"
| "onRemoved (Object3D r k cs) s = s"

definition dispatchRemoved :: "object3d \<Rightarrow> viewer \<Rightarrow> viewer" where
  "dispatchRemoved obj s =
     (if isCSS2DObject obj then foldl (\<lambda>s' x. onRemoved x s') s (traverse obj) else s)"

text \<open>
  \<^verbatim>\<open>scene.remove(object)\<close>: only a direct child of the scene is taken out (the engine
  looks the object up in \<^verbatim>\<open>scene.children\<close>); the removed object then receives
  its \<^verbatim>\<open>removed\<close> event.
\<close>

definition scene_remove :: "object3d \<Rightarrow> viewer \<Rightarrow> viewer" where
  "scene_remove obj s =
     (if obj \<in> set (children (scene s))
      then dispatchRemoved obj
             (s\<lparr>scene := set_children (scene s) (remove1 obj (children (scene s)))\<rparr>)
      else s)"

text \<open>
  \<^verbatim>\<open>scene.add(object)\<close>: the object leaves its previous parent and becomes the last
  child. The objects added to the scene here are fresh or were just removed from it.
\<close>

definition scene_add :: "object3d \<Rightarrow> viewer \<Rightarrow> viewer" where
  "scene_add obj s =
     s\<lparr>scene := set_children (scene s) (remove1 obj (children (scene s)) @ [obj])\<rparr>"

section \<open>Label manager (labelUtils.js)\<close>

text \<open>
  \<^verbatim>\<open>createLabel(text, position, component)\<close>: a new \<^verbatim>\<open>div\<close> of class \<^verbatim>\<open>fossil-label\<close> and a
  new \<^verbatim>\<open>CSS2DObject\<close> around it. The anchor coordinates are geometry, which is left to
  the engine: the world position of an object is read from \<^const>\<open>worldPosition\<close>.
\<close>

definition createLabel :: "string \<Rightarrow> viewer \<Rightarrow> object3d \<times> viewer" where
  "createLabel text s =
     (let e = nextRef s; l = Suc (nextRef s)
      in (Object3D l (CSS2DObject e) [],
          s\<lparr>elements := (elements s)(e :=
                \<lparr>className = ''fossil-label'', textContent = text, display = [],
                 opacity = [], parentNode = None\<rparr>),
            objVisible := (objVisible s)(l := True),
            nextRef := Suc (Suc (nextRef s))\<rparr>))"

fun label_element :: "object3d \<Rightarrow> ref" where
  "label_element (Object3D r (CSS2DObject e) cs) = e"
| "label_element (Object3D r k cs) = r"

text \<open>
  \<^verbatim>\<open>addLabel(scene, labelsArray, text, position, component)\<close>. Its first argument is the
  object the label is added to: every factory passes the model group it is building,
  and the global array \<^verbatim>\<open>window.labels\<close> as \<^verbatim>\<open>labelsArray\<close>.
\<close>

definition addLabel ::
  "model3d \<Rightarrow> string \<Rightarrow> ref option \<Rightarrow> viewer \<Rightarrow> model3d \<times> viewer" where
  "addLabel m text owner s =
     (case createLabel text s of (label, s1) \<Rightarrow>
        let m' = m\<lparr>root := set_children (root m) (children (root m) @ [label])\<rparr>;
            labelInfo = \<lparr>li_object = Some (oid label), li_element = label_element label,
                         li_component = owner\<rparr>;
            s2 = s1\<lparr>window_labels := window_labels s1 @ [labelInfo]\<rparr>
        in (case owner of
              None \<Rightarrow> (m', s2)
            | Some c \<Rightarrow>
                let old = (case c_labels (comps s2 c) of None \<Rightarrow> [] | Some ls \<Rightarrow> ls);
                    h = \<lparr>h_object = oid label, h_element = label_element label\<rparr>
                in (m', s2\<lparr>comps := (comps s2)(c :=
                              (comps s2 c)\<lparr>c_labels := Some (old @ [h])\<rparr>)\<rparr>)))"

text \<open>\<^verbatim>\<open>removeAllLabels(scene)\<close>\<close>

definition detachAllFossilLabels :: "viewer \<Rightarrow> viewer" where
  "detachAllFossilLabels s =
     s\<lparr>elements := (\<lambda>r. if className (elements s r) = ''fossil-label''
                             \<and> parentNode (elements s r) = Some InLabelContainer
                          then (elements s r)\<lparr>parentNode := None\<rparr>
                          else elements s r)\<rparr>"

definition removeAllLabels :: "viewer \<Rightarrow> viewer" where
  "removeAllLabels s =
     (let objectsToRemove = filter isCSS2DObject (traverse (scene s));
          s1 = foldl (\<lambda>s' obj. scene_remove obj s') s objectsToRemove;
          s2 = (foldl (\<lambda>s' label. removeFromParent (li_element label) s') s1
                  (window_labels s1))\<lparr>window_labels := []\<rparr>
      in if labelContainer s2 then detachAllFossilLabels s2 else s2)"

text \<open>\<^verbatim>\<open>updateLabels(labels, camera)\<close>, with the camera's world position already read.\<close>

fun distanceTo :: "vec3 \<Rightarrow> vec3 \<Rightarrow> real" where
  "distanceTo (x1, y1, z1) (x2, y2, z2) = sqrt ((x1 - x2)\<^sup>2 + (y1 - y2)\<^sup>2 + (z1 - z2)\<^sup>2)"

definition set_opacity :: "ref \<Rightarrow> string \<Rightarrow> viewer \<Rightarrow> viewer" where
  "set_opacity e v s = s\<lparr>elements := (elements s)(e := (elements s e)\<lparr>opacity := v\<rparr>)\<rparr>"

definition updateLabel :: "vec3 \<Rightarrow> label_info \<Rightarrow> viewer \<Rightarrow> viewer" where
  "updateLabel camPos label s =
     (case li_object label of
        None \<Rightarrow> s
      | Some obj \<Rightarrow>
          let distance = distanceTo (worldPosition s obj) camPos
          in if distance > 10 then set_opacity (li_element label) ''0.3'' s
             else set_opacity (li_element label) ''1'' s)"


section \<open>Visibility controller (controls.js)\<close>

definition set_display :: "ref \<Rightarrow> string \<Rightarrow> viewer \<Rightarrow> viewer" where
  "set_display e v s = s\<lparr>elements := (elements s)(e := (elements s e)\<lparr>display := v\<rparr>)\<rparr>"

text \<open>\<^verbatim>\<open>toggleComponentVisibility(component, isVisible)\<close>\<close>

definition toggleComponentVisibility :: "ref \<Rightarrow> bool \<Rightarrow> viewer \<Rightarrow> viewer" where
  "toggleComponentVisibility c isVisible s =
     (let s1 = (case c_mesh (comps s c) of
                  Some m \<Rightarrow> s\<lparr>objVisible := (objVisible s)(m := isVisible),
                              comps := (comps s)(c := (comps s c)\<lparr>c_visible := isVisible\<rparr>)\<rparr>
                | None \<Rightarrow>
                   (case c_group (comps s c) of
                      Some g \<Rightarrow> s\<lparr>objVisible := (objVisible s)(g := isVisible),
                                  comps := (comps s)(c := (comps s c)\<lparr>c_visible := isVisible\<rparr>)\<rparr>
                    | None \<Rightarrow> s))
      in case c_labels (comps s1 c) of
           None \<Rightarrow> s1
         | Some ls \<Rightarrow>
             foldl (\<lambda>s' label. set_display (h_element label)
                                  (if isVisible then ''block'' else ''none'') s') s1 ls)"

text \<open>The subtree a component owns: its mesh when it has one, else its group.\<close>

definition subtree :: "component \<Rightarrow> ref option" where
  "subtree c = (case c_mesh c of Some m \<Rightarrow> Some m | None \<Rightarrow> c_group c)"

text \<open>An overlay element is shown unless its \<^verbatim>\<open>style.display\<close> is \<^verbatim>\<open>none\<close>.\<close>

definition shown :: "dom_element \<Rightarrow> bool" where
  "shown e = (display e \<noteq> ''none'')"

definition bound_labels :: "component \<Rightarrow> label_handle list" where
  "bound_labels c = (case c_labels c of None \<Rightarrow> [] | Some ls \<Rightarrow> ls)"

section \<open>Document segmenter (\<^verbatim>\<open>updateFossilInfo\<close> and its helper \<^verbatim>\<open>createTabbedContent\<close>)\<close>

text \<open>
  A parsed document is a forest of elements and text nodes. Tag names are kept in lower
  case, so the source's test \<^verbatim>\<open>tagName !== 'H4'\<close> reads \<open>tagOf n \<noteq> ''h4''\<close>.
\<close>

datatype dnode = Element string "dnode list" | TextNode string

text \<open>
  What the browser and the fossil modules provide: the HTML parser, the serialiser behind
  \<^verbatim>\<open>outerHTML\<close>, and the description document of each specimen (\<^verbatim>\<open>getFusulineInfo()\<close>
  and its six siblings, long literals that no property here depends on).
\<close>

record browser =
  parseFromString :: "string \<Rightarrow> dnode list"
  outerHTML :: "dnode \<Rightarrow> string"
  getInfo :: "string \<Rightarrow> string"

fun isElement :: "dnode \<Rightarrow> bool" where
  "isElement (Element tag cs) = True"
| "isElement (TextNode t) = False"

fun tagOf :: "dnode \<Rightarrow> string" where
  "tagOf (Element tag cs) = tag"
| "tagOf (TextNode t) = []"

fun textContentOf :: "dnode \<Rightarrow> string" where
  "textContentOf (TextNode t) = t"
| "textContentOf (Element tag cs) = concat (map textContentOf cs)"

text \<open>
  All elements of a forest in document order, each with its previous element sibling
  and its following element siblings (what \<^verbatim>\<open>nextElementSibling\<close> steps through).
\<close>

fun walk :: "dnode option \<Rightarrow> dnode list \<Rightarrow> (dnode option \<times> dnode \<times> dnode list) list" where
  "walk prev [] = []"
| "walk prev (TextNode t # ns) = walk prev ns"
| "walk prev (Element tag cs # ns) =
     (prev, Element tag cs, filter isElement ns)
       # (walk None cs @ walk (Some (Element tag cs)) ns)"

definition querySelectorAll ::
  "string \<Rightarrow> dnode list \<Rightarrow> (dnode option \<times> dnode \<times> dnode list) list" where
  "querySelectorAll tag doc = filter (\<lambda>(p, e, nx). tagOf e = tag) (walk None doc)"

definition querySelector ::
  "string \<Rightarrow> dnode list \<Rightarrow> (dnode option \<times> dnode \<times> dnode list) option" where
  "querySelector tag doc = (case querySelectorAll tag doc of [] \<Rightarrow> None | x # xs \<Rightarrow> Some x)"

text \<open>\<^verbatim>\<open>doc.querySelector('h3 + p')\<close>: the first paragraph that directly follows an \<^verbatim>\<open>h3\<close>.\<close>

definition querySelector_h3_plus_p :: "dnode list \<Rightarrow> dnode option" where
  "querySelector_h3_plus_p doc =
     (case filter (\<lambda>(p, e, nx). tagOf e = ''p''
                     \<and> (case p of Some q \<Rightarrow> tagOf q = ''h3'' | None \<Rightarrow> False))
             (walk None doc)
      of [] \<Rightarrow> None | (p, e, nx) # xs \<Rightarrow> Some e)"

text \<open>\<^verbatim>\<open>String.prototype.includes\<close>\<close>

fun string_includes :: "string \<Rightarrow> string \<Rightarrow> bool" where
  "string_includes [] sub = (sub = [])"
| "string_includes (c # cs) sub = (take (length sub) (c # cs) = sub \<or> string_includes cs sub)"

record info_section =
  sec_id :: string
  sec_title :: string
  sec_content :: string

text \<open>The loop \<^verbatim>\<open>while (nextElement && nextElement.tagName !== 'H4')\<close>.\<close>

fun collectUntilH4 :: "(dnode \<Rightarrow> string) \<Rightarrow> dnode list \<Rightarrow> string" where
  "collectUntilH4 outer [] = []"
| "collectUntilH4 outer (n # ns) =
     (if tagOf n = ''h4'' then [] else outer n @ collectUntilH4 outer ns)"

text \<open>
  One of the three heading blocks of \<^verbatim>\<open>createTabbedContent\<close>: the first \<^verbatim>\<open>h4\<close> whose text
  includes the key, and the section pushed for it.
\<close>

definition findHeading ::
  "string \<Rightarrow> dnode list \<Rightarrow> (dnode option \<times> dnode \<times> dnode list) option" where
  "findHeading key doc =
     (case filter (\<lambda>(p, h, nx). string_includes (textContentOf h) key) (querySelectorAll ''h4'' doc)
      of [] \<Rightarrow> None | x # xs \<Rightarrow> Some x)"

definition headingSection ::
  "browser \<Rightarrow> dnode list \<Rightarrow> string \<Rightarrow> string \<Rightarrow> string \<Rightarrow> info_section list" where
  "headingSection b doc key ident title =
     (case findHeading key doc of
        None \<Rightarrow> []
      | Some (p, h, nx) \<Rightarrow>
          [\<lparr>sec_id = ident, sec_title = title,
            sec_content = outerHTML b h @ collectUntilH4 (outerHTML b) nx\<rparr>])"

definition overviewSection :: "browser \<Rightarrow> dnode list \<Rightarrow> info_section list" where
  "overviewSection b doc =
     (case querySelector_h3_plus_p doc of
        None \<Rightarrow> []
      | Some p \<Rightarrow> [\<lparr>sec_id = ''overview'', sec_title = ''Overview'', sec_content = outerHTML b p\<rparr>])"

text \<open>The sections pushed before the citation is looked at, in the order of the source.\<close>

definition headingSections :: "browser \<Rightarrow> dnode list \<Rightarrow> info_section list" where
  "headingSections b doc =
     overviewSection b doc
     @ headingSection b doc ''Key Features'' ''features'' ''Features''
     @ headingSection b doc ''Geological Significance'' ''significance'' ''Significance''
     @ headingSection b doc ''Taxonomy'' ''taxonomy'' ''Taxonomy''"

text \<open>
  The citation step: \<^verbatim>\<open>if (sourceEm && sections.length > 0)\<close>, then either the last
  section is the taxonomy section and gets the citation appended, or a new section is
  pushed.
\<close>

definition addSource :: "browser \<Rightarrow> dnode list \<Rightarrow> info_section list \<Rightarrow> info_section list" where
  "addSource b doc sections =
     (case querySelector ''em'' doc of
        None \<Rightarrow> sections
      | Some (p, sourceEm, nx) \<Rightarrow>
          if sections = [] then sections
          else if sec_id (last sections) = ''taxonomy''
          then butlast sections
                 @ [(last sections)\<lparr>sec_content :=
                       sec_content (last sections) @ outerHTML b sourceEm\<rparr>]
          else sections @ [\<lparr>sec_id = ''source'', sec_title = ''Source'',
                             sec_content = outerHTML b sourceEm\<rparr>])"

definition sectionsOf :: "browser \<Rightarrow> dnode list \<Rightarrow> info_section list" where
  "sectionsOf b doc = addSource b doc (headingSections b doc)"

definition tabButton :: "nat \<times> info_section \<Rightarrow> string" where
  \<open>tabButton x = (case x of (index, sec) \<Rightarrow>
     ''<div class="info-tab '' @ (if index = 0 then ''active'' else []) @ ''" data-tab="''
       @ sec_id sec @ ''">'' @ sec_title sec @ ''</div>'')\<close>

definition tabContent :: "nat \<times> info_section \<Rightarrow> string" where
  \<open>tabContent x = (case x of (index, sec) \<Rightarrow>
     ''<div class="info-content '' @ (if index = 0 then ''active'' else []) @ ''" id="tab-''
       @ sec_id sec @ ''">'' @ sec_content sec @ ''</div>'')\<close>

definition createTabbedContent :: "browser \<Rightarrow> string \<Rightarrow> string" where
  \<open>createTabbedContent b htmlContent =
     (let doc = parseFromString b htmlContent;
          title = (case querySelector ''h3'' doc of
                     Some (p, h, nx) \<Rightarrow> outerHTML b h | None \<Rightarrow> []);
          sections = sectionsOf b doc
      in title @ ''<div class="info-tabs">''
           @ concat (map tabButton (enumerate 0 sections))
           @ ''</div>''
           @ concat (map tabContent (enumerate 0 sections)))\<close>

text \<open>\<^verbatim>\<open>String.prototype.trim\<close>, on the white space that one byte can hold.\<close>

definition isWhiteSpace :: "char \<Rightarrow> bool" where
  "isWhiteSpace c = (c \<in> set [CHR 0x09, CHR 0x0A, CHR 0x0B, CHR 0x0C, CHR 0x0D, CHR '' ''])"

definition trim :: "string \<Rightarrow> string" where
  "trim str = rev (dropWhile isWhiteSpace (rev (dropWhile isWhiteSpace str)))"

text \<open>\<^verbatim>\<open>updateFossilInfo(info)\<close>: what is assigned to the panel's \<^verbatim>\<open>innerHTML\<close>.\<close>

definition updateFossilInfo :: "browser \<Rightarrow> string \<Rightarrow> viewer \<Rightarrow> viewer" where
  "updateFossilInfo b info s =
     (if length (trim info) < 50 \<or> \<not> string_includes info ''<h3>''
      then s\<lparr>fossilInfo := info\<rparr>
      else s\<lparr>fossilInfo := createTabbedContent b info\<rparr>)"

section \<open>Specimen factories (js/fossils)\<close>

text \<open>
  The factories differ in geometry only, which is not modelled: a component's mesh or
  group is a node without inner structure. None of the inner meshes is a label.
\<close>

definition newObject3D :: "obj_kind \<Rightarrow> viewer \<Rightarrow> object3d \<times> viewer" where
  "newObject3D k s =
     (Object3D (nextRef s) k [],
      s\<lparr>objVisible := (objVisible s)(nextRef s := True), nextRef := Suc (nextRef s)\<rparr>)"

text \<open>\<^verbatim>\<open>new THREE.Group()\<close> with \<^verbatim>\<open>userData = { components: [] }\<close>\<close>

definition newModel :: "viewer \<Rightarrow> model3d \<times> viewer" where
  "newModel s =
     (case newObject3D GroupObj s of (g, s1) \<Rightarrow> (\<lparr>root = g, components = []\<rparr>, s1))"

text \<open>\<^verbatim>\<open>group.add(object)\<close> for a fresh object.\<close>

definition group_add :: "object3d \<Rightarrow> model3d \<Rightarrow> model3d" where
  "group_add obj m = m\<lparr>root := set_children (root m) (children (root m) @ [obj])\<rparr>"

text \<open>The object literal \<^verbatim>\<open>const component = {...}\<close>\<close>

definition newComponent :: "component \<Rightarrow> viewer \<Rightarrow> ref \<times> viewer" where
  "newComponent c s =
     (nextRef s, s\<lparr>comps := (comps s)(nextRef s := c), nextRef := Suc (nextRef s)\<rparr>)"

text \<open>\<^verbatim>\<open>group.userData.components.push(component)\<close>: the registration of a component.\<close>

definition pushComponent :: "ref \<Rightarrow> model3d \<Rightarrow> model3d" where
  "pushComponent c m = m\<lparr>components := components m @ [c]\<rparr>"

datatype part = MeshPart | GroupPart

definition partRecord :: "part \<Rightarrow> string \<Rightarrow> string \<Rightarrow> ref \<Rightarrow> component" where
  "partRecord p nm dn sub =
     \<lparr>c_name = nm, c_displayName = dn,
      c_mesh = (case p of MeshPart \<Rightarrow> Some sub | GroupPart \<Rightarrow> None),
      c_group = (case p of MeshPart \<Rightarrow> None | GroupPart \<Rightarrow> Some sub),
      c_visible = True, c_labels = None\<rparr>"

text \<open>
  The shape every \<^verbatim>\<open>create...(group)\<close> function of the factories has: build the part and
  add it to the group, push the component record, add the label. The arguments are the
  record's \<^verbatim>\<open>mesh\<close> or \<^verbatim>\<open>group\<close> key, its \<^verbatim>\<open>name\<close> and \<^verbatim>\<open>displayName\<close>, and the label text.
\<close>

definition createPart ::
  "part \<Rightarrow> string \<Rightarrow> string \<Rightarrow> string \<Rightarrow> model3d \<times> viewer \<Rightarrow> model3d \<times> viewer" where
  "createPart p nm dn text ms =
     (case ms of (m, s) \<Rightarrow>
      case newObject3D (case p of MeshPart \<Rightarrow> MeshObj | GroupPart \<Rightarrow> GroupObj) s of (sub, s1) \<Rightarrow>
      case newComponent (partRecord p nm dn (oid sub)) s1 of (c, s2) \<Rightarrow>
        addLabel (pushComponent c (group_add sub m)) text (Some c) s2)"

text \<open>conodont.js: \<^verbatim>\<open>createCusp\<close> calls \<^verbatim>\<open>createWhiteMatter\<close> before it pushes its own record.\<close>

definition createWhiteMatter :: "model3d \<times> viewer \<Rightarrow> model3d \<times> viewer" where
  "createWhiteMatter = createPart MeshPart ''whiteMatter'' ''White Matter'' ''White Matter''"

definition createCusp :: "model3d \<times> viewer \<Rightarrow> model3d \<times> viewer" where
  "createCusp ms =
     (case ms of (m, s) \<Rightarrow>
      case newObject3D MeshObj s of (cusp, s1) \<Rightarrow>
      case createWhiteMatter (group_add cusp m, s1) of (m2, s2) \<Rightarrow>
      case newComponent (partRecord MeshPart ''cusp'' ''Main Cusp'' (oid cusp)) s2 of (c, s3) \<Rightarrow>
        addLabel (pushComponent c m2) ''Main Cusp'' (Some c) s3)"

definition createFusulineModel :: "viewer \<Rightarrow> model3d \<times> viewer" where
  "createFusulineModel s = foldl (\<lambda>ms f. f ms) (newModel s)
     [createPart MeshPart ''shell'' ''Outer Shell'' ''Outer Shell (Test)'',
      createPart GroupPart ''septa'' ''Septa (Chamber Walls)'' ''Septa'',
      createPart MeshPart ''aperture'' ''Aperture (Opening)'' ''Aperture'',
      createPart GroupPart ''chambers'' ''Internal Chambers'' ''Chambers'',
      createPart GroupPart ''chomata'' ''Chomata'' ''Chomata'',
      createPart GroupPart ''tunnel'' ''Tunnel'' ''Tunnel'',
      createPart GroupPart ''cuniculus'' ''Cuniculi'' ''Cuniculi'',
      createPart GroupPart ''septalPores'' ''Septal Pores'' ''Septal Pores'']"

definition createRadiolarianModel :: "viewer \<Rightarrow> model3d \<times> viewer" where
  "createRadiolarianModel s = foldl (\<lambda>ms f. f ms) (newModel s)
     [createPart GroupPart ''skeleton'' ''Siliceous Skeleton'' ''Siliceous Skeleton'',
      createPart GroupPart ''capsule'' ''Central Capsule'' ''Central Capsule'',
      createPart GroupPart ''spines'' ''Radial Spines'' ''Radial Spines'',
      createPart GroupPart ''axopods'' ''Axopods'' ''Axopods'']"

definition createForaminiferaModel :: "viewer \<Rightarrow> model3d \<times> viewer" where
  "createForaminiferaModel s = foldl (\<lambda>ms f. f ms) (newModel s)
     [createPart GroupPart ''test'' ''Test (Shell)'' ''Test (Shell)'',
      createPart GroupPart ''chambers'' ''Chambers'' ''Chambers'',
      createPart MeshPart ''aperture'' ''Aperture (Opening)'' ''Aperture'',
      createPart GroupPart ''pseudopodia'' ''Pseudopodia'' ''Pseudopodia'',
      createPart GroupPart ''symbiotic_algae'' ''Symbiotic Algae'' ''Symbiotic Algae'',
      createPart GroupPart ''pore_system'' ''Pore System'' ''Pore System'']"

text \<open>
  diatom.js builds the four parts first, assigns the array of records as a whole, and
  adds the four labels last, each for the record at its index.
\<close>

definition createDiatomParts :: "viewer \<Rightarrow> model3d \<times> viewer" where
  "createDiatomParts s =
     (case newModel s of (m, s0) \<Rightarrow>
      case newObject3D MeshObj s0 of (diatom, s1) \<Rightarrow>
      case newObject3D GroupObj s1 of (ornamentGroup, s2) \<Rightarrow>
      case newObject3D GroupObj s2 of (chloroplastGroup, s3) \<Rightarrow>
      case newObject3D GroupObj s3 of (rapheGroup, s4) \<Rightarrow>
      case newComponent (partRecord MeshPart ''frustule'' ''Frustule (Shell)'' (oid diatom)) s4
        of (c0, s5) \<Rightarrow>
      case newComponent (partRecord GroupPart ''ornaments'' ''Surface Ornaments'' (oid ornamentGroup)) s5
        of (c1, s6) \<Rightarrow>
      case newComponent (partRecord GroupPart ''chloroplasts'' ''Chloroplasts'' (oid chloroplastGroup)) s6
        of (c2, s7) \<Rightarrow>
      case newComponent (partRecord GroupPart ''raphe'' ''Raphe System'' (oid rapheGroup)) s7
        of (c3, s8) \<Rightarrow>
        ((group_add rapheGroup (group_add chloroplastGroup
            (group_add ornamentGroup (group_add diatom m))))\<lparr>components := [c0, c1, c2, c3]\<rparr>,
         s8))"

text \<open>\<^verbatim>\<open>addLabel(diatomGroup, labelsArray, text, position, diatomGroup.userData.components[i])\<close>\<close>

definition addIndexedLabel :: "string \<Rightarrow> nat \<Rightarrow> model3d \<times> viewer \<Rightarrow> model3d \<times> viewer" where
  "addIndexedLabel text i ms =
     (case ms of (m, s) \<Rightarrow>
        addLabel m text (if i < length (components m) then Some (components m ! i) else None) s)"

definition createDiatomModel :: "viewer \<Rightarrow> model3d \<times> viewer" where
  "createDiatomModel s = foldl (\<lambda>ms f. f ms) (createDiatomParts s)
     [addIndexedLabel ''Frustule'' 0,
      addIndexedLabel ''Surface Ornaments'' 1,
      addIndexedLabel ''Chloroplasts'' 2,
      addIndexedLabel ''Raphe'' 3]"

definition createConodontModel :: "viewer \<Rightarrow> model3d \<times> viewer" where
  "createConodontModel s = foldl (\<lambda>ms f. f ms) (newModel s)
     [createPart MeshPart ''body'' ''Element Body'' ''Element Body'',
      createPart GroupPart ''denticles'' ''Denticles'' ''Denticles'',
      createCusp,
      createPart MeshPart ''basalCavity'' ''Basal Cavity'' ''Basal Cavity'',
      createPart GroupPart ''growthLines'' ''Growth Lines'' ''Growth Lines'']"

definition createOstracodModel :: "viewer \<Rightarrow> model3d \<times> viewer" where
  "createOstracodModel s = foldl (\<lambda>ms f. f ms) (newModel s)
     [createPart GroupPart ''carapace'' ''Carapace (Shell)'' ''Carapace'',
      createPart MeshPart ''hinge'' ''Hinge Line'' ''Hinge Line'',
      createPart GroupPart ''appendages'' ''Appendages'' ''Appendages'',
      createPart MeshPart ''body'' ''Internal Body'' ''Internal Body'',
      createPart GroupPart ''muscleScars'' ''Muscle Scars'' ''Muscle Scars'',
      createPart GroupPart ''eyeSpots'' ''Eye Spots'' ''Eye Spots'']"

definition createAcritarchModel :: "viewer \<Rightarrow> model3d \<times> viewer" where
  "createAcritarchModel s = foldl (\<lambda>ms f. f ms) (newModel s)
     [createPart MeshPart ''vesicle'' ''Vesicle (Central Body)'' ''Vesicle'',
      createPart GroupPart ''processes'' ''Processes (Spines)'' ''Processes'',
      createPart MeshPart ''operculum'' ''Operculum (Opening)'' ''Operculum'',
      createPart MeshPart ''interior'' ''Interior Structure'' ''Interior'',
      createPart GroupPart ''wallUltrastructure'' ''Wall Ultrastructure'' ''Wall Ultrastructure'',
      createPart GroupPart ''surfaceOrnamentation'' ''Surface Ornamentation'' ''Surface Ornamentation'']"

section \<open>Specimen loader (main.js)\<close>

text \<open>The keys the \<^verbatim>\<open>switch\<close> of \<^verbatim>\<open>loadFossil\<close> has a case for.\<close>

definition supported :: "string list" where
  "supported = [''fusuline'', ''radiolarian'', ''foraminifera'', ''diatom'', ''conodont'',
                ''ostracod'', ''acritarch'']"

text \<open>The \<^verbatim>\<open>switch (type)\<close>; it has no default case.\<close>

definition createModel :: "string \<Rightarrow> viewer \<Rightarrow> (model3d \<times> viewer) option" where
  "createModel type s =
     (if type = ''fusuline'' then Some (createFusulineModel s)
      else if type = ''radiolarian'' then Some (createRadiolarianModel s)
      else if type = ''foraminifera'' then Some (createForaminiferaModel s)
      else if type = ''diatom'' then Some (createDiatomModel s)
      else if type = ''conodont'' then Some (createConodontModel s)
      else if type = ''ostracod'' then Some (createOstracodModel s)
      else if type = ''acritarch'' then Some (createAcritarchModel s)
      else None)"

text \<open>
  \<^verbatim>\<open>updateComponentToggles(components)\<close>: the container is emptied and gets one check box
  per component, checked as the component's \<^verbatim>\<open>visible\<close> flag says.
\<close>

definition updateComponentToggles :: "ref list \<Rightarrow> viewer \<Rightarrow> viewer" where
  "updateComponentToggles cs s =
     s\<lparr>componentToggles := map (\<lambda>c. (c, c_visible (comps s c))) cs\<rparr>"

definition resetView :: "viewer \<Rightarrow> viewer" where
  "resetView s = s\<lparr>cameraPosition := (0, 0, 5)\<rparr>"

text \<open>
  The first statements of \<^verbatim>\<open>loadFossil(type)\<close>: the current model leaves the scene,
  \<^verbatim>\<open>removeAllLabels(scene)\<close> runs, the cross-section is reset and \<^verbatim>\<open>fossilType\<close> is set.
\<close>

definition teardown :: "string \<Rightarrow> viewer \<Rightarrow> viewer" where
  "teardown type s =
     (removeAllLabels (case currentModel s of Some m \<Rightarrow> scene_remove (root m) s | None \<Rightarrow> s))
       \<lparr>crossSectionEnabled := False, clippingPlanes := [], fossilType := type\<rparr>"

text \<open>
  \<^verbatim>\<open>loadFossil(type)\<close>. For a key without a case, \<^verbatim>\<open>currentModel\<close> keeps its value,
  \<^verbatim>\<open>components\<close> stays \<^verbatim>\<open>[]\<close> and \<^verbatim>\<open>info\<close> stays the empty string. \<^verbatim>\<open>scene.add(null)\<close>
  adds nothing.
\<close>

definition loadFossil :: "browser \<Rightarrow> string \<Rightarrow> viewer \<Rightarrow> viewer" where
  "loadFossil b type s =
     (let s3 = teardown type s;
          made = createModel type s3;
          s4 = (case made of Some (m, s') \<Rightarrow> s'\<lparr>currentModel := Some m\<rparr> | None \<Rightarrow> s3);
          cs = (case made of Some (m, s') \<Rightarrow> components m | None \<Rightarrow> []);
          info = (case made of Some (m, s') \<Rightarrow> getInfo b type | None \<Rightarrow> []);
          s5 = (case currentModel s4 of Some m \<Rightarrow> scene_add (root m) s4 | None \<Rightarrow> s4)
      in resetView (updateFossilInfo b info (updateComponentToggles cs s5)))"

definition loadSequence :: "browser \<Rightarrow> string list \<Rightarrow> viewer \<Rightarrow> viewer" where
  "loadSequence b ks s = foldl (\<lambda>s' k. loadFossil b k s') s ks"

text \<open>
  The state \<^verbatim>\<open>init()\<close> has built when it calls \<^verbatim>\<open>loadFossil\<close> for the first time: a scene
  with the three lights, no model, no labels, the label container set.
\<close>

definition lights :: "object3d list" where
  "lights = [Object3D 1 LightObj [], Object3D 2 LightObj [], Object3D 3 LightObj []]"

definition emptyElement :: dom_element where
  "emptyElement = \<lparr>className = [], textContent = [], display = [], opacity = [],
                    parentNode = None\<rparr>"

definition emptyComponent :: component where
  "emptyComponent = \<lparr>c_name = [], c_displayName = [], c_mesh = None, c_group = None,
                      c_visible = False, c_labels = None\<rparr>"

definition init_viewer :: viewer where
  "init_viewer =
     \<lparr>scene = Object3D 0 SceneObj lights,
      objVisible = (\<lambda>r. True),
      worldPosition = (\<lambda>r. (0, 0, 0)),
      elements = (\<lambda>r. emptyElement),
      comps = (\<lambda>r. emptyComponent),
      window_labels = [],
      labelContainer = True,
      currentModel = None,
      crossSectionEnabled = False,
      clippingPlanes = [],
      fossilType = ''fusuline'',
      componentToggles = [],
      fossilInfo = ''<p>Select a fossil to view information</p>'',
      cameraPosition = (0, 0, 5),
      nextRef = 4\<rparr>"

text \<open>The labels that lie anywhere in the scene graph, as the references of their objects.\<close>

definition sceneLabels :: "viewer \<Rightarrow> ref list" where
  "sceneLabels s = map oid (filter isCSS2DObject (traverse (scene s)))"

section \<open>Observations and invariants used in the statements\<close>

text \<open>The texts of the labels in the global array, read from their overlay elements.\<close>

definition labelTexts :: "viewer \<Rightarrow> string list" where
  "labelTexts s = map (\<lambda>l. textContent (elements s (li_element l))) (window_labels s)"

text \<open>The names in a model's component list, in order.\<close>

definition componentNames :: "model3d \<times> viewer \<Rightarrow> string list" where
  "componentNames ms = map (\<lambda>c. c_name (comps (snd ms) c)) (components (fst ms))"

definition labelsIn :: "object3d list \<Rightarrow> ref list" where
  "labelsIn cs = map oid (filter isCSS2DObject (concat (map traverse cs)))"

text \<open>
  The label texts each factory passes to \<^verbatim>\<open>addLabel\<close>, in call order, as written in the
  fossil modules.
\<close>

definition factoryLabels :: "string \<Rightarrow> string list" where
  "factoryLabels type =
     (if type = ''fusuline'' then
        [''Outer Shell (Test)'', ''Septa'', ''Aperture'', ''Chambers'', ''Chomata'', ''Tunnel'',
         ''Cuniculi'', ''Septal Pores'']
      else if type = ''radiolarian'' then
        [''Siliceous Skeleton'', ''Central Capsule'', ''Radial Spines'', ''Axopods'']
      else if type = ''foraminifera'' then
        [''Test (Shell)'', ''Chambers'', ''Aperture'', ''Pseudopodia'', ''Symbiotic Algae'',
         ''Pore System'']
      else if type = ''diatom'' then
        [''Frustule'', ''Surface Ornaments'', ''Chloroplasts'', ''Raphe'']
      else if type = ''conodont'' then
        [''Element Body'', ''Denticles'', ''White Matter'', ''Main Cusp'', ''Basal Cavity'',
         ''Growth Lines'']
      else if type = ''ostracod'' then
        [''Carapace'', ''Hinge Line'', ''Appendages'', ''Internal Body'', ''Muscle Scars'',
         ''Eye Spots'']
      else if type = ''acritarch'' then
        [''Vesicle'', ''Processes'', ''Operculum'', ''Interior'', ''Wall Ultrastructure'',
         ''Surface Ornamentation'']
      else [])"

text \<open>
  What holds of a model under construction: the scene is untouched, the references in
  use lie below \<^const>\<open>nextRef\<close>, the labels pushed so far were allocated at or after \<open>n\<close>,
  and the global array lists exactly the labels that hang in the model.
\<close>

definition built :: "ref \<Rightarrow> object3d \<Rightarrow> model3d \<times> viewer \<Rightarrow> bool" where
  "built n sc ms =
     (scene (snd ms) = sc \<and> n \<le> nextRef (snd ms) \<and> okind (root (fst ms)) = GroupObj
      \<and> list_all (\<lambda>l. li_element l < nextRef (snd ms)
                       \<and> (case li_object l of
                             Some r \<Rightarrow> n \<le> r \<and> r < nextRef (snd ms) | None \<Rightarrow> False))
                  (window_labels (snd ms))
      \<and> list_all (\<lambda>c. c < nextRef (snd ms)) (components (fst ms))
      \<and> map li_object (window_labels (snd ms)) = map Some (labelsIn (children (root (fst ms)))))"

text \<open>
  What holds of the viewer between loads: below the scene are the lights and the current
  model, and the global array lists the labels of that model.
\<close>

definition loaded :: "viewer \<Rightarrow> bool" where
  "loaded s =
     (okind (scene s) = SceneObj
      \<and> (case currentModel s of
            None \<Rightarrow> children (scene s) = lights \<and> window_labels s = []
          | Some m \<Rightarrow> children (scene s) = lights @ [root m]
                        \<and> built 0 (scene s) (m, s)))"


section \<open>Example data\<close>

text \<open>A plain serialiser, a parser that returns one fixed document, and empty descriptions.\<close>

fun serialize :: "dnode \<Rightarrow> string" where
  "serialize (TextNode t) = t"
| "serialize (Element tag cs) =
     ''<'' @ tag @ ''>'' @ concat (map serialize cs) @ ''</'' @ tag @ ''>''"

definition demo_document :: "dnode list" where
  "demo_document =
     [Element ''h3'' [TextNode ''Diatom''],
      Element ''p'' [TextNode ''Microscopic algae.''],
      Element ''h4'' [TextNode ''Key Features:''],
      Element ''ul'' [Element ''li'' [TextNode ''Frustule''], Element ''li'' [TextNode ''Raphe''],
                     Element ''li'' [TextNode ''Chloroplasts'']],
      Element ''h4'' [TextNode ''Taxonomy & Classification:''],
      Element ''p'' [TextNode ''Bacillariophyceae''],
      Element ''p'' [Element ''em'' [TextNode ''Data sourced from DiatomBase'']]]"


text \<open>A document with a citation and nothing the segmenter recognises.\<close>

definition demo_document_bare :: "dnode list" where
  "demo_document_bare =
     [Element ''h3'' [TextNode ''Diatom''],
      Element ''ul'' [Element ''li'' [TextNode ''Frustule'']],
      Element ''p'' [Element ''em'' [TextNode ''Data sourced from DiatomBase'']]]"


definition demo_browser :: browser where
  "demo_browser =
     \<lparr>parseFromString = (\<lambda>html. demo_document), outerHTML = serialize, getInfo = (\<lambda>type. [])\<rparr>"

text \<open>
  A viewer with one model: a group holding the mesh of component 6 and its label 8, whose
  element 7 the label renderer has attached. Two more labels lie nearer to the origin.
\<close>

definition demo_root :: object3d where
  "demo_root = Object3D 4 GroupObj [Object3D 5 MeshObj [], Object3D 8 (CSS2DObject 7) []]"


definition demo_viewer :: viewer where
  "demo_viewer =
     init_viewer
       \<lparr>scene := Object3D 0 SceneObj (lights @ [demo_root]),
        worldPosition := (\<lambda>r. (0, 0, 0))(8 := (0, 0, 15), 10 := (0, 0, 5), 12 := (0, 0, 10)),
        elements := (\<lambda>r. emptyElement)(7 :=
           \<lparr>className = ''fossil-label'', textContent = ''Outer Shell (Test)'', display = [],
            opacity = [], parentNode = Some InLabelContainer\<rparr>),
        comps := (\<lambda>r. emptyComponent)(6 :=
           \<lparr>c_name = ''shell'', c_displayName = ''Outer Shell'', c_mesh = Some 5,
            c_group = None, c_visible = True,
            c_labels = Some [\<lparr>h_object = 8, h_element = 7\<rparr>]\<rparr>),
        window_labels := [\<lparr>li_object = Some 8, li_element = 7, li_component = Some 6\<rparr>],
        currentModel := Some \<lparr>root = demo_root, components = [6]\<rparr>,
        nextRef := 9\<rparr>"

section \<open>Basic facts about the scene graph\<close>

lemma traverse_hd: "traverse c = c # concat (map traverse (children c))"
  by (cases c) simp

lemma children_set_children [simp]: "children (set_children sc cs) = cs"
  by (cases sc) simp

lemma set_children_twice [simp]: "set_children (set_children sc cs) cs' = set_children sc cs'"
  by (cases sc) simp

lemma set_children_same [simp]: "set_children sc (children sc) = sc"
  by (cases sc) simp

lemma oid_set_children [simp]: "oid (set_children sc cs) = oid sc"
  by (cases sc) simp

lemma okind_set_children [simp]: "okind (set_children sc cs) = okind sc"
  by (cases sc) simp

lemma isCSS2DObject_okind: "isCSS2DObject x \<longleftrightarrow> (\<exists>e. okind x = CSS2DObject e)"
  by (cases x rule: isCSS2DObject.cases) simp_all

section \<open>What the teardown steps leave alone\<close>

lemma removeFromParent_frame [simp]:
  "scene (removeFromParent e s) = scene s"
  "comps (removeFromParent e s) = comps s"
  "window_labels (removeFromParent e s) = window_labels s"
  "labelContainer (removeFromParent e s) = labelContainer s"
  "objVisible (removeFromParent e s) = objVisible s"
  "currentModel (removeFromParent e s) = currentModel s"
  "nextRef (removeFromParent e s) = nextRef s"
  by (simp_all add: removeFromParent_def)

lemma onRemoved_frame [simp]:
  "scene (onRemoved x s) = scene s"
  "comps (onRemoved x s) = comps s"
  "window_labels (onRemoved x s) = window_labels s"
  "labelContainer (onRemoved x s) = labelContainer s"
  "objVisible (onRemoved x s) = objVisible s"
  "currentModel (onRemoved x s) = currentModel s"
  "nextRef (onRemoved x s) = nextRef s"
  by (induction x s rule: onRemoved.induct) simp_all

lemma fold_onRemoved_frame [simp]:
  "scene (foldl (\<lambda>s' x. onRemoved x s') s xs) = scene s"
  "comps (foldl (\<lambda>s' x. onRemoved x s') s xs) = comps s"
  "window_labels (foldl (\<lambda>s' x. onRemoved x s') s xs) = window_labels s"
  "labelContainer (foldl (\<lambda>s' x. onRemoved x s') s xs) = labelContainer s"
  "objVisible (foldl (\<lambda>s' x. onRemoved x s') s xs) = objVisible s"
  "currentModel (foldl (\<lambda>s' x. onRemoved x s') s xs) = currentModel s"
  "nextRef (foldl (\<lambda>s' x. onRemoved x s') s xs) = nextRef s"
  by (induction xs arbitrary: s) simp_all

lemma dispatchRemoved_frame [simp]:
  "scene (dispatchRemoved x s) = scene s"
  "comps (dispatchRemoved x s) = comps s"
  "window_labels (dispatchRemoved x s) = window_labels s"
  "labelContainer (dispatchRemoved x s) = labelContainer s"
  "objVisible (dispatchRemoved x s) = objVisible s"
  "currentModel (dispatchRemoved x s) = currentModel s"
  "nextRef (dispatchRemoved x s) = nextRef s"
  by (simp_all add: dispatchRemoved_def)

lemma scene_remove_scene:
  "scene (scene_remove obj s) = set_children (scene s) (remove1 obj (children (scene s)))"
  by (simp add: scene_remove_def remove1_idem)

lemma scene_remove_frame [simp]:
  "comps (scene_remove x s) = comps s"
  "window_labels (scene_remove x s) = window_labels s"
  "labelContainer (scene_remove x s) = labelContainer s"
  "objVisible (scene_remove x s) = objVisible s"
  "currentModel (scene_remove x s) = currentModel s"
  "nextRef (scene_remove x s) = nextRef s"
  by (simp_all add: scene_remove_def)

lemma fold_scene_remove_frame [simp]:
  "comps (foldl (\<lambda>s' x. scene_remove x s') s xs) = comps s"
  "window_labels (foldl (\<lambda>s' x. scene_remove x s') s xs) = window_labels s"
  "labelContainer (foldl (\<lambda>s' x. scene_remove x s') s xs) = labelContainer s"
  "objVisible (foldl (\<lambda>s' x. scene_remove x s') s xs) = objVisible s"
  "currentModel (foldl (\<lambda>s' x. scene_remove x s') s xs) = currentModel s"
  "nextRef (foldl (\<lambda>s' x. scene_remove x s') s xs) = nextRef s"
  by (induction xs arbitrary: s) simp_all

lemma fold_scene_remove_scene:
  "scene (foldl (\<lambda>s' x. scene_remove x s') s xs) =
     set_children (scene s) (foldl (\<lambda>cs x. remove1 x cs) (children (scene s)) xs)"
  by (induction xs arbitrary: s) (simp_all add: scene_remove_scene)

lemma fold_removeFromParent_frame [simp]:
  "scene (foldl (\<lambda>s' l. removeFromParent (li_element l) s') s ls) = scene s"
  "comps (foldl (\<lambda>s' l. removeFromParent (li_element l) s') s ls) = comps s"
  "window_labels (foldl (\<lambda>s' l. removeFromParent (li_element l) s') s ls) = window_labels s"
  "labelContainer (foldl (\<lambda>s' l. removeFromParent (li_element l) s') s ls) = labelContainer s"
  "objVisible (foldl (\<lambda>s' l. removeFromParent (li_element l) s') s ls) = objVisible s"
  "currentModel (foldl (\<lambda>s' l. removeFromParent (li_element l) s') s ls) = currentModel s"
  "nextRef (foldl (\<lambda>s' l. removeFromParent (li_element l) s') s ls) = nextRef s"
  by (induction ls arbitrary: s) simp_all

lemma detachAllFossilLabels_frame [simp]:
  "scene (detachAllFossilLabels s) = scene s"
  "comps (detachAllFossilLabels s) = comps s"
  "window_labels (detachAllFossilLabels s) = window_labels s"
  "labelContainer (detachAllFossilLabels s) = labelContainer s"
  "objVisible (detachAllFossilLabels s) = objVisible s"
  "currentModel (detachAllFossilLabels s) = currentModel s"
  "nextRef (detachAllFossilLabels s) = nextRef s"
  by (simp_all add: detachAllFossilLabels_def)

lemma detachAllFossilLabels_idem:
  "detachAllFossilLabels (detachAllFossilLabels s) = detachAllFossilLabels s"
  by (auto simp add: detachAllFossilLabels_def fun_eq_iff)

section \<open>Teardown\<close>

lemma filter_remove1_other:
  "P x \<Longrightarrow> filter (\<lambda>y. \<not> P y) (remove1 x cs) = filter (\<lambda>y. \<not> P y) cs"
  by (induction cs) auto

text \<open>
  Removing, one by one, a list of marked objects that covers every marked child leaves
  exactly the unmarked children.
\<close>

lemma remove_all_marked:
  "\<forall>x\<in>set xs. P x \<Longrightarrow> mset (filter P cs) \<subseteq># mset xs \<Longrightarrow>
     foldl (\<lambda>cs x. remove1 x cs) cs xs = filter (\<lambda>y. \<not> P y) cs"
proof (induction xs arbitrary: cs)
  case Nil
  then have "filter P cs = []" by simp
  then have "\<forall>y\<in>set cs. \<not> P y" by (simp add: filter_empty_conv)
  then show ?case by simp
next
  case (Cons x xs)
  have px: "P x" using Cons.prems(1) by simp
  have "mset (filter P (remove1 x cs)) = mset (filter P cs) - {#x#}"
    using px by (induction cs) auto
  also have "\<dots> \<subseteq># mset xs"
    using Cons.prems(2) by (simp add: subset_eq_diff_conv)
  finally have "mset (filter P (remove1 x cs)) \<subseteq># mset xs" .
  with Cons.IH[of "remove1 x cs"] Cons.prems(1) px show ?case
    by (simp add: filter_remove1_other)
qed

lemma children_in_traverse:
  "mset (filter P cs) \<subseteq># mset (filter P (concat (map traverse cs)))"
proof (induction cs)
  case Nil
  show ?case by simp
next
  case (Cons c cs)
  obtain r k ds where c: "c = Object3D r k ds" by (cases c)
  have "mset (filter P cs) \<subseteq>#
          mset (filter P (concat (map traverse ds))) + mset (filter P (concat (map traverse cs)))"
    using Cons.IH by (rule subset_mset.order_trans) simp
  then show ?case by (simp add: c)
qed

lemma scene_after_removal:
  "scene (foldl (\<lambda>s' obj. scene_remove obj s') s (filter isCSS2DObject (traverse (scene s)))) =
     set_children (scene s) (filter (\<lambda>y. \<not> isCSS2DObject y) (children (scene s)))"
proof -
  have sub: "mset (filter isCSS2DObject (children (scene s)))
               \<subseteq># mset (filter isCSS2DObject (traverse (scene s)))"
    using children_in_traverse[of isCSS2DObject "children (scene s)"]
    by (subst traverse_hd) (auto intro: subset_mset.order_trans)
  have "foldl (\<lambda>cs x. remove1 x cs) (children (scene s)) (filter isCSS2DObject (traverse (scene s)))
          = filter (\<lambda>y. \<not> isCSS2DObject y) (children (scene s))"
    by (rule remove_all_marked) (use sub in auto)
  then show ?thesis by (simp add: fold_scene_remove_scene)
qed

text \<open>After the teardown no label is a direct child of the scene.\<close>

lemma removeAllLabels_scene:
  "scene (removeAllLabels s) =
     set_children (scene s) (filter (\<lambda>y. \<not> isCSS2DObject y) (children (scene s)))"
  by (simp add: removeAllLabels_def Let_def scene_after_removal)

lemma removeAllLabels_window_labels: "window_labels (removeAllLabels s) = []"
  by (simp add: removeAllLabels_def Let_def)

lemma removeAllLabels_frame:
  "labelContainer (removeAllLabels s) = labelContainer s"
  "comps (removeAllLabels s) = comps s"
  "objVisible (removeAllLabels s) = objVisible s"
  "currentModel (removeAllLabels s) = currentModel s"
  "nextRef (removeAllLabels s) = nextRef s"
  by (simp_all add: removeAllLabels_def Let_def)

lemma scene_remove_absent: "obj \<notin> set (children (scene s)) \<Longrightarrow> scene_remove obj s = s"
  by (simp add: scene_remove_def)

lemma fold_scene_remove_absent:
  "\<forall>x\<in>set xs. x \<notin> set (children (scene s)) \<Longrightarrow> foldl (\<lambda>s' x. scene_remove x s') s xs = s"
  by (induction xs) (simp_all add: scene_remove_absent)

text \<open>A state the teardown has nothing to do on.\<close>

lemma removeAllLabels_fixpoint:
  assumes "\<forall>c\<in>set (children (scene s)). \<not> isCSS2DObject c"
    and "window_labels s = []"
    and "labelContainer s \<Longrightarrow> detachAllFossilLabels s = s"
  shows "removeAllLabels s = s"
proof -
  have 1: "foldl (\<lambda>s' x. scene_remove x s') s (filter isCSS2DObject (traverse (scene s))) = s"
    by (rule fold_scene_remove_absent) (use assms(1) in auto)
  have 2: "s\<lparr>window_labels := []\<rparr> = s"
    using assms(2) by (cases s) simp
  show ?thesis
    using assms(3) by (simp add: removeAllLabels_def Let_def 1 assms(2) 2)
qed

lemma removeAllLabels_detached:
  "labelContainer s \<Longrightarrow> detachAllFossilLabels (removeAllLabels s) = removeAllLabels s"
  by (simp add: removeAllLabels_def Let_def detachAllFossilLabels_idem)

text \<open>
  C4. \<^verbatim>\<open>removeAllLabels\<close> is idempotent: a second call, made right after the first,
  returns the state it was given. The scene graph, the overlay elements and their
  attachment, and the global label array are all as the first call left them.
\<close>

theorem removeAllLabels_idempotent:
  "removeAllLabels (removeAllLabels s) = removeAllLabels s"
proof (rule removeAllLabels_fixpoint)
  show "\<forall>c\<in>set (children (scene (removeAllLabels s))). \<not> isCSS2DObject c"
    by (simp add: removeAllLabels_scene)
  show "window_labels (removeAllLabels s) = []"
    by (rule removeAllLabels_window_labels)
  show "detachAllFossilLabels (removeAllLabels s) = removeAllLabels s"
    if "labelContainer (removeAllLabels s)"
    using that by (simp add: removeAllLabels_frame removeAllLabels_detached)
qed

lemma removeFromParent_parentNode:
  "parentNode (elements (removeFromParent e s) e') =
     (if e' = e then None else parentNode (elements s e'))"
  by (simp add: removeFromParent_def)

lemma fold_removeFromParent_keeps:
  "parentNode (elements s e) = None \<Longrightarrow>
     parentNode (elements (foldl (\<lambda>s' l. removeFromParent (li_element l) s') s ls) e) = None"
  by (induction ls arbitrary: s) (simp_all add: removeFromParent_parentNode)

lemma fold_removeFromParent_detaches:
  "l \<in> set ls \<Longrightarrow>
     parentNode (elements (foldl (\<lambda>s' x. removeFromParent (li_element x) s') s ls) (li_element l)) = None"
  by (induction ls arbitrary: s)
     (auto simp add: fold_removeFromParent_keeps removeFromParent_parentNode)

lemma detachAllFossilLabels_keeps:
  "parentNode (elements s e) = None \<Longrightarrow> parentNode (elements (detachAllFossilLabels s) e) = None"
  by (simp add: detachAllFossilLabels_def)

lemma removeAllLabels_detaches:
  "l \<in> set (window_labels s) \<Longrightarrow> parentNode (elements (removeAllLabels s) (li_element l)) = None"
  by (simp add: removeAllLabels_def Let_def detachAllFossilLabels_keeps
        fold_removeFromParent_detaches)

section \<open>Per-frame update\<close>

lemma updateLabel_worldPosition [simp]: "worldPosition (updateLabel p l s) = worldPosition s"
  by (simp add: updateLabel_def set_opacity_def Let_def split: option.splits)







section \<open>Visibility toggling\<close>

lemma set_display_frame [simp]:
  "comps (set_display e v s) = comps s" "objVisible (set_display e v s) = objVisible s"
  by (simp_all add: set_display_def)

lemma fold_set_display_frame [simp]:
  "comps (foldl (\<lambda>s' l. set_display (h_element l) v s') s ls) = comps s"
  "objVisible (foldl (\<lambda>s' l. set_display (h_element l) v s') s ls) = objVisible s"
  by (induction ls arbitrary: s) simp_all

lemma fold_set_display_elements:
  "elements (foldl (\<lambda>s' l. set_display (h_element l) v s') s ls) e =
     (if e \<in> h_element ` set ls then (elements s e)\<lparr>display := v\<rparr> else elements s e)"
  by (induction ls arbitrary: s) (auto simp add: set_display_def)

lemma toggle_comps:
  "comps (toggleComponentVisibility c v s) =
     (if subtree (comps s c) = None then comps s
      else (comps s)(c := (comps s c)\<lparr>c_visible := v\<rparr>))"
  by (simp add: toggleComponentVisibility_def subtree_def Let_def split: option.splits)

lemma toggle_objVisible:
  "objVisible (toggleComponentVisibility c v s) =
     (case subtree (comps s c) of None \<Rightarrow> objVisible s | Some t \<Rightarrow> (objVisible s)(t := v))"
  by (simp add: toggleComponentVisibility_def subtree_def Let_def split: option.splits)

lemma toggle_elements:
  "elements (toggleComponentVisibility c v s) e =
     (if e \<in> h_element ` set (bound_labels (comps s c))
      then (elements s e)\<lparr>display := (if v then ''block'' else ''none'')\<rparr>
      else elements s e)"
  by (simp add: toggleComponentVisibility_def bound_labels_def Let_def fold_set_display_elements
           split: option.splits)

text \<open>
  C6. For a component that owns a subtree (a mesh or a group, as every component record
  of the factories does): after \<^verbatim>\<open>toggleComponentVisibility(c, v)\<close> the component's
  \<^verbatim>\<open>visible\<close> flag is \<open>v\<close>, its subtree's \<^verbatim>\<open>visible\<close> flag is \<open>v\<close>, and every label in the
  component's \<^verbatim>\<open>labels\<close> array has \<^verbatim>\<open>display\<close> \<^verbatim>\<open>block\<close> if \<open>v\<close> and \<^verbatim>\<open>none\<close> otherwise, that
  is, it is shown iff \<open>v\<close>. The function returns the whole new state at once.
\<close>

theorem toggle_postcondition:
  assumes "subtree (comps s c) = Some t"
  shows "c_visible (comps (toggleComponentVisibility c v s) c) = v
       \<and> subtree (comps (toggleComponentVisibility c v s) c) = Some t
       \<and> objVisible (toggleComponentVisibility c v s) t = v
       \<and> (\<forall>h \<in> set (bound_labels (comps (toggleComponentVisibility c v s) c)).
             display (elements (toggleComponentVisibility c v s) (h_element h)) =
               (if v then ''block'' else ''none'')
           \<and> shown (elements (toggleComponentVisibility c v s) (h_element h)) = v)"
  using assms
  by (auto simp add: toggle_comps toggle_objVisible toggle_elements subtree_def bound_labels_def
        shown_def split: option.splits)

theorem toggle_postcondition_witness:
  "subtree (comps demo_viewer 6) = Some 5
   \<and> c_visible (comps demo_viewer 6)
   \<and> \<not> c_visible (comps (toggleComponentVisibility 6 False demo_viewer) 6)
   \<and> \<not> objVisible (toggleComponentVisibility 6 False demo_viewer) 5
   \<and> display (elements (toggleComponentVisibility 6 False demo_viewer) 7) = ''none''
   \<and> \<not> shown (elements (toggleComponentVisibility 6 False demo_viewer) 7)"
  using toggle_postcondition[of demo_viewer 6 5 False]
  by (simp add: demo_viewer_def subtree_def bound_labels_def toggle_comps)

text \<open>
  C7. If a component is visible, its subtree is visible and its labels are shown, then
  \<^verbatim>\<open>toggle(c, false)\<close> followed by \<^verbatim>\<open>toggle(c, true)\<close> gives back the component records and
  the \<^verbatim>\<open>visible\<close> flags of all objects exactly, and every overlay element is shown
  afterwards iff it was shown before. (A label whose \<^verbatim>\<open>display\<close> was the empty string
  has \<^verbatim>\<open>display\<close> \<^verbatim>\<open>block\<close> afterwards: shown, as before.)
\<close>

theorem toggle_off_on_restores:
  assumes "c_visible (comps s c)"
    and "\<forall>t. subtree (comps s c) = Some t \<longrightarrow> objVisible s t"
    and "\<forall>h \<in> set (bound_labels (comps s c)). shown (elements s (h_element h))"
  shows "comps (toggleComponentVisibility c True (toggleComponentVisibility c False s)) = comps s
       \<and> objVisible (toggleComponentVisibility c True (toggleComponentVisibility c False s))
           = objVisible s
       \<and> (\<forall>e. shown (elements
                  (toggleComponentVisibility c True (toggleComponentVisibility c False s)) e)
                = shown (elements s e))"
proof (intro conjI allI)
  show "comps (toggleComponentVisibility c True (toggleComponentVisibility c False s)) = comps s"
    using assms(1) by (auto simp add: toggle_comps subtree_def fun_eq_iff split: option.splits)
  show "objVisible (toggleComponentVisibility c True (toggleComponentVisibility c False s))
          = objVisible s"
    using assms(2)
    by (auto simp add: toggle_comps toggle_objVisible subtree_def fun_eq_iff split: option.splits)
  show "shown (elements (toggleComponentVisibility c True (toggleComponentVisibility c False s)) e)
          = shown (elements s e)" for e
    using assms(3)
    by (auto simp add: toggle_comps toggle_elements bound_labels_def shown_def subtree_def
          split: option.splits)
qed

theorem toggle_off_on_restores_witness:
  "c_visible (comps demo_viewer 6) \<and> objVisible demo_viewer 5 \<and> shown (elements demo_viewer 7)
   \<and> \<not> shown (elements (toggleComponentVisibility 6 False demo_viewer) 7)
   \<and> comps (toggleComponentVisibility 6 True (toggleComponentVisibility 6 False demo_viewer))
       = comps demo_viewer
   \<and> objVisible (toggleComponentVisibility 6 True (toggleComponentVisibility 6 False demo_viewer)) 5
   \<and> shown (elements
        (toggleComponentVisibility 6 True (toggleComponentVisibility 6 False demo_viewer)) 7)"
proof -
  have h1: "c_visible (comps demo_viewer 6)"
    by (simp add: demo_viewer_def)
  have h2: "\<forall>t. subtree (comps demo_viewer 6) = Some t \<longrightarrow> objVisible demo_viewer t"
    by (simp add: demo_viewer_def init_viewer_def subtree_def)
  have h3: "\<forall>h \<in> set (bound_labels (comps demo_viewer 6)). shown (elements demo_viewer (h_element h))"
    by (simp add: demo_viewer_def bound_labels_def shown_def)
  have h4: "objVisible demo_viewer 5" "shown (elements demo_viewer 7)"
    by (simp_all add: demo_viewer_def init_viewer_def shown_def)
  have h5: "\<not> shown (elements (toggleComponentVisibility 6 False demo_viewer) 7)"
    by (simp add: toggle_elements shown_def) (simp add: demo_viewer_def bound_labels_def)
  from toggle_off_on_restores[OF h1 h2 h3] h1 h4 h5 show ?thesis
    by simp
qed

section \<open>Description panel\<close>



section \<open>What one factory step does\<close>

lemma addLabel_eq:
  "addLabel m text (Some c) s =
     (m\<lparr>root := set_children (root m)
                  (children (root m) @ [Object3D (nextRef s + 1) (CSS2DObject (nextRef s)) []])\<rparr>,
      s\<lparr>elements := (elements s)(nextRef s :=
            \<lparr>className = ''fossil-label'', textContent = text, display = [], opacity = [],
             parentNode = None\<rparr>),
        objVisible := (objVisible s)(nextRef s + 1 := True),
        window_labels := window_labels s @
           [\<lparr>li_object = Some (nextRef s + 1), li_element = nextRef s, li_component = Some c\<rparr>],
        comps := (comps s)(c := (comps s c)\<lparr>c_labels :=
            Some (bound_labels (comps s c) @ [\<lparr>h_object = nextRef s + 1, h_element = nextRef s\<rparr>])\<rparr>),
        nextRef := nextRef s + 2\<rparr>)"
  by (simp add: addLabel_def createLabel_def Let_def bound_labels_def eval_nat_numeral)

lemma createPart_eq:
  "createPart p nm dn text (m, s) =
     (m\<lparr>root := set_children (root m)
                  (children (root m) @
                     [Object3D (nextRef s) (case p of MeshPart \<Rightarrow> MeshObj | GroupPart \<Rightarrow> GroupObj) [],
                      Object3D (nextRef s + 3) (CSS2DObject (nextRef s + 2)) []]),
        components := components m @ [nextRef s + 1]\<rparr>,
      s\<lparr>elements := (elements s)(nextRef s + 2 :=
            \<lparr>className = ''fossil-label'', textContent = text, display = [], opacity = [],
             parentNode = None\<rparr>),
        objVisible := (objVisible s)(nextRef s := True, nextRef s + 3 := True),
        window_labels := window_labels s @
           [\<lparr>li_object = Some (nextRef s + 3), li_element = nextRef s + 2,
             li_component = Some (nextRef s + 1)\<rparr>],
        comps := (comps s)(nextRef s + 1 :=
            (partRecord p nm dn (nextRef s))\<lparr>c_labels :=
               Some [\<lparr>h_object = nextRef s + 3, h_element = nextRef s + 2\<rparr>]\<rparr>),
        nextRef := nextRef s + 4\<rparr>)"
  by (cases p) (simp_all add: createPart_def newObject3D_def newComponent_def addLabel_eq pushComponent_def
        group_add_def bound_labels_def partRecord_def eval_nat_numeral)

lemma labelsIn_append [simp]: "labelsIn (xs @ ys) = labelsIn xs @ labelsIn ys"
  by (simp add: labelsIn_def)

lemma labelsIn_simps [simp]:
  "labelsIn [] = []"
  "labelsIn (Object3D r (CSS2DObject e) [] # cs) = r # labelsIn cs"
  "labelsIn (Object3D r MeshObj [] # cs) = labelsIn cs"
  "labelsIn (Object3D r GroupObj [] # cs) = labelsIn cs"
  "labelsIn (Object3D r LightObj [] # cs) = labelsIn cs"
  by (simp_all add: labelsIn_def)

lemma built_createPart:
  "built n sc ms \<Longrightarrow> built n sc (createPart p nm dn t ms)"
  by (cases ms; cases p)
     (auto simp add: built_def createPart_eq list_all_iff split: option.splits)

lemma texts_createPart:
  "built n sc ms \<Longrightarrow> labelTexts (snd (createPart p nm dn t ms)) = labelTexts (snd ms) @ [t]"
  by (cases ms) (auto simp add: built_def createPart_eq labelTexts_def list_all_iff)

lemma names_createPart:
  "built n sc ms \<Longrightarrow> componentNames (createPart p nm dn t ms) = componentNames ms @ [nm]"
  by (cases ms) (auto simp add: built_def createPart_eq componentNames_def list_all_iff partRecord_def)

lemma createCusp_eq:
  "createCusp (m, s) =
     (case createPart MeshPart ''whiteMatter'' ''White Matter'' ''White Matter''
             (group_add (Object3D (nextRef s) MeshObj []) m,
              s\<lparr>objVisible := (objVisible s)(nextRef s := True), nextRef := nextRef s + 1\<rparr>)
      of (m2, s2) \<Rightarrow>
        addLabel (pushComponent (nextRef s2) m2) ''Main Cusp'' (Some (nextRef s2))
          (s2\<lparr>comps := (comps s2)(nextRef s2 := partRecord MeshPart ''cusp'' ''Main Cusp'' (nextRef s)),
              nextRef := nextRef s2 + 1\<rparr>))"
  by (simp add: createCusp_def createWhiteMatter_def newObject3D_def newComponent_def split: prod.splits)

lemma built_createCusp:
  "built n sc ms \<Longrightarrow> built n sc (createCusp ms)"
  by (cases ms)
     (auto simp add: built_def createCusp_eq createPart_eq addLabel_eq group_add_def
        pushComponent_def list_all_iff split: option.splits)

lemma texts_createCusp:
  "built n sc ms \<Longrightarrow> labelTexts (snd (createCusp ms)) = labelTexts (snd ms) @ [''White Matter'', ''Main Cusp'']"
  by (cases ms)
     (auto simp add: built_def createCusp_eq createPart_eq addLabel_eq group_add_def
        pushComponent_def labelTexts_def list_all_iff)

lemma names_createCusp:
  "built n sc ms \<Longrightarrow> componentNames (createCusp ms) = componentNames ms @ [''whiteMatter'', ''cusp'']"
  by (cases ms)
     (auto simp add: built_def createCusp_eq createPart_eq addLabel_eq group_add_def
        pushComponent_def componentNames_def list_all_iff partRecord_def)

lemma built_newModel:
  "window_labels s = [] \<Longrightarrow> built (nextRef s) (scene s) (newModel s)"
  by (simp add: built_def newModel_def newObject3D_def)

lemma texts_newModel:
  "window_labels s = [] \<Longrightarrow> labelTexts (snd (newModel s)) = []"
  by (simp add: labelTexts_def newModel_def newObject3D_def)

lemma names_newModel: "componentNames (newModel s) = []"
  by (simp add: componentNames_def newModel_def newObject3D_def)

lemma addLabel_None_eq:
  "addLabel m text None s =
     (m\<lparr>root := set_children (root m)
                  (children (root m) @ [Object3D (nextRef s + 1) (CSS2DObject (nextRef s)) []])\<rparr>,
      s\<lparr>elements := (elements s)(nextRef s :=
            \<lparr>className = ''fossil-label'', textContent = text, display = [], opacity = [],
             parentNode = None\<rparr>),
        objVisible := (objVisible s)(nextRef s + 1 := True),
        window_labels := window_labels s @
           [\<lparr>li_object = Some (nextRef s + 1), li_element = nextRef s, li_component = None\<rparr>],
        nextRef := nextRef s + 2\<rparr>)"
  by (simp add: addLabel_def createLabel_def Let_def eval_nat_numeral)

lemma built_addIndexedLabel:
  "built n sc ms \<Longrightarrow> built n sc (addIndexedLabel t i ms)"
  by (cases ms)
     (auto simp add: built_def addIndexedLabel_def addLabel_eq addLabel_None_eq list_all_iff
        split: option.splits)

lemma texts_addIndexedLabel:
  "built n sc ms \<Longrightarrow> labelTexts (snd (addIndexedLabel t i ms)) = labelTexts (snd ms) @ [t]"
  by (cases ms)
     (auto simp add: built_def addIndexedLabel_def addLabel_eq addLabel_None_eq labelTexts_def
        list_all_iff)

lemma names_addIndexedLabel:
  "built n sc ms \<Longrightarrow> componentNames (addIndexedLabel t i ms) = componentNames ms"
  by (cases ms)
     (auto simp add: built_def addIndexedLabel_def addLabel_eq addLabel_None_eq componentNames_def
        list_all_iff)

lemma diatomParts_built:
  assumes "window_labels s = []"
  shows "built (nextRef s) (scene s) (createDiatomParts s)"
  using assms
  by (simp add: createDiatomParts_def newModel_def newObject3D_def newComponent_def
        group_add_def built_def)

lemma diatomParts_texts:
  assumes "window_labels s = []"
  shows "labelTexts (snd (createDiatomParts s)) = []"
  using assms
  by (simp add: createDiatomParts_def newModel_def newObject3D_def newComponent_def
        group_add_def labelTexts_def)

lemma diatomParts_names:
  "componentNames (createDiatomParts s) = [''frustule'', ''ornaments'', ''chloroplasts'', ''raphe'']"
  by (simp add: createDiatomParts_def newModel_def newObject3D_def newComponent_def
        group_add_def componentNames_def partRecord_def)

lemma diatom_built:
  assumes "window_labels s = []"
  shows "built (nextRef s) (scene s) (createDiatomModel s)"
  unfolding createDiatomModel_def foldl.simps
  by (intro built_addIndexedLabel diatomParts_built assms)

lemma diatom_texts:
  assumes "window_labels s = []"
  shows "labelTexts (snd (createDiatomModel s)) = factoryLabels ''diatom''"
  unfolding createDiatomModel_def foldl.simps
  by (simp add: texts_addIndexedLabel[where n = "nextRef s" and sc = "scene s"]
        built_addIndexedLabel diatomParts_built diatomParts_texts assms factoryLabels_def)

lemma diatom_names:
  assumes "window_labels s = []"
  shows "componentNames (createDiatomModel s) = [''frustule'', ''ornaments'', ''chloroplasts'', ''raphe'']"
  unfolding createDiatomModel_def foldl.simps
  by (simp add: names_addIndexedLabel[where n = "nextRef s" and sc = "scene s"]
        built_addIndexedLabel diatomParts_built diatomParts_names assms)

section \<open>The seven factories\<close>

lemma fusuline_built:
  assumes "window_labels s = []"
  shows "built (nextRef s) (scene s) (createFusulineModel s)"
  unfolding createFusulineModel_def foldl.simps
  by (intro built_createPart built_createCusp built_newModel assms)

lemma fusuline_texts:
  assumes "window_labels s = []"
  shows "labelTexts (snd (createFusulineModel s)) = factoryLabels ''fusuline''"
  unfolding createFusulineModel_def foldl.simps
  by (simp add: texts_createPart[where n = "nextRef s" and sc = "scene s"]
        texts_createCusp[where n = "nextRef s" and sc = "scene s"]
        built_createPart built_createCusp built_newModel texts_newModel assms factoryLabels_def)

lemma fusuline_names:
  assumes "window_labels s = []"
  shows "componentNames (createFusulineModel s) = [''shell'', ''septa'', ''aperture'', ''chambers'', ''chomata'', ''tunnel'', ''cuniculus'', ''septalPores'']"
  unfolding createFusulineModel_def foldl.simps
  by (simp add: names_createPart[where n = "nextRef s" and sc = "scene s"]
        names_createCusp[where n = "nextRef s" and sc = "scene s"]
        built_createPart built_createCusp built_newModel names_newModel assms)

lemma radiolarian_built:
  assumes "window_labels s = []"
  shows "built (nextRef s) (scene s) (createRadiolarianModel s)"
  unfolding createRadiolarianModel_def foldl.simps
  by (intro built_createPart built_createCusp built_newModel assms)

lemma radiolarian_texts:
  assumes "window_labels s = []"
  shows "labelTexts (snd (createRadiolarianModel s)) = factoryLabels ''radiolarian''"
  unfolding createRadiolarianModel_def foldl.simps
  by (simp add: texts_createPart[where n = "nextRef s" and sc = "scene s"]
        texts_createCusp[where n = "nextRef s" and sc = "scene s"]
        built_createPart built_createCusp built_newModel texts_newModel assms factoryLabels_def)

lemma radiolarian_names:
  assumes "window_labels s = []"
  shows "componentNames (createRadiolarianModel s) = [''skeleton'', ''capsule'', ''spines'', ''axopods'']"
  unfolding createRadiolarianModel_def foldl.simps
  by (simp add: names_createPart[where n = "nextRef s" and sc = "scene s"]
        names_createCusp[where n = "nextRef s" and sc = "scene s"]
        built_createPart built_createCusp built_newModel names_newModel assms)

lemma foraminifera_built:
  assumes "window_labels s = []"
  shows "built (nextRef s) (scene s) (createForaminiferaModel s)"
  unfolding createForaminiferaModel_def foldl.simps
  by (intro built_createPart built_createCusp built_newModel assms)

lemma foraminifera_texts:
  assumes "window_labels s = []"
  shows "labelTexts (snd (createForaminiferaModel s)) = factoryLabels ''foraminifera''"
  unfolding createForaminiferaModel_def foldl.simps
  by (simp add: texts_createPart[where n = "nextRef s" and sc = "scene s"]
        texts_createCusp[where n = "nextRef s" and sc = "scene s"]
        built_createPart built_createCusp built_newModel texts_newModel assms factoryLabels_def)

lemma foraminifera_names:
  assumes "window_labels s = []"
  shows "componentNames (createForaminiferaModel s) = [''test'', ''chambers'', ''aperture'', ''pseudopodia'', ''symbiotic_algae'', ''pore_system'']"
  unfolding createForaminiferaModel_def foldl.simps
  by (simp add: names_createPart[where n = "nextRef s" and sc = "scene s"]
        names_createCusp[where n = "nextRef s" and sc = "scene s"]
        built_createPart built_createCusp built_newModel names_newModel assms)

lemma conodont_built:
  assumes "window_labels s = []"
  shows "built (nextRef s) (scene s) (createConodontModel s)"
  unfolding createConodontModel_def foldl.simps
  by (intro built_createPart built_createCusp built_newModel assms)

lemma conodont_texts:
  assumes "window_labels s = []"
  shows "labelTexts (snd (createConodontModel s)) = factoryLabels ''conodont''"
  unfolding createConodontModel_def foldl.simps
  by (simp add: texts_createPart[where n = "nextRef s" and sc = "scene s"]
        texts_createCusp[where n = "nextRef s" and sc = "scene s"]
        built_createPart built_createCusp built_newModel texts_newModel assms factoryLabels_def)

lemma conodont_names:
  assumes "window_labels s = []"
  shows "componentNames (createConodontModel s) = [''body'', ''denticles'', ''whiteMatter'', ''cusp'', ''basalCavity'', ''growthLines'']"
  unfolding createConodontModel_def foldl.simps
  by (simp add: names_createPart[where n = "nextRef s" and sc = "scene s"]
        names_createCusp[where n = "nextRef s" and sc = "scene s"]
        built_createPart built_createCusp built_newModel names_newModel assms)

lemma ostracod_built:
  assumes "window_labels s = []"
  shows "built (nextRef s) (scene s) (createOstracodModel s)"
  unfolding createOstracodModel_def foldl.simps
  by (intro built_createPart built_createCusp built_newModel assms)

lemma ostracod_texts:
  assumes "window_labels s = []"
  shows "labelTexts (snd (createOstracodModel s)) = factoryLabels ''ostracod''"
  unfolding createOstracodModel_def foldl.simps
  by (simp add: texts_createPart[where n = "nextRef s" and sc = "scene s"]
        texts_createCusp[where n = "nextRef s" and sc = "scene s"]
        built_createPart built_createCusp built_newModel texts_newModel assms factoryLabels_def)

lemma ostracod_names:
  assumes "window_labels s = []"
  shows "componentNames (createOstracodModel s) = [''carapace'', ''hinge'', ''appendages'', ''body'', ''muscleScars'', ''eyeSpots'']"
  unfolding createOstracodModel_def foldl.simps
  by (simp add: names_createPart[where n = "nextRef s" and sc = "scene s"]
        names_createCusp[where n = "nextRef s" and sc = "scene s"]
        built_createPart built_createCusp built_newModel names_newModel assms)

lemma acritarch_built:
  assumes "window_labels s = []"
  shows "built (nextRef s) (scene s) (createAcritarchModel s)"
  unfolding createAcritarchModel_def foldl.simps
  by (intro built_createPart built_createCusp built_newModel assms)

lemma acritarch_texts:
  assumes "window_labels s = []"
  shows "labelTexts (snd (createAcritarchModel s)) = factoryLabels ''acritarch''"
  unfolding createAcritarchModel_def foldl.simps
  by (simp add: texts_createPart[where n = "nextRef s" and sc = "scene s"]
        texts_createCusp[where n = "nextRef s" and sc = "scene s"]
        built_createPart built_createCusp built_newModel texts_newModel assms factoryLabels_def)

lemma acritarch_names:
  assumes "window_labels s = []"
  shows "componentNames (createAcritarchModel s) = [''vesicle'', ''processes'', ''operculum'', ''interior'', ''wallUltrastructure'', ''surfaceOrnamentation'']"
  unfolding createAcritarchModel_def foldl.simps
  by (simp add: names_createPart[where n = "nextRef s" and sc = "scene s"]
        names_createCusp[where n = "nextRef s" and sc = "scene s"]
        built_createPart built_createCusp built_newModel names_newModel assms)

section \<open>Loading a specimen\<close>

lemma createModel_unsupported: "k \<notin> set supported \<Longrightarrow> createModel k s = None"
  by (simp add: supported_def createModel_def)

lemma createModel_supported:
  assumes "k \<in> set supported" and "window_labels s = []"
  shows "\<exists>ms. createModel k s = Some ms \<and> built (nextRef s) (scene s) ms
           \<and> labelTexts (snd ms) = factoryLabels k \<and> distinct (componentNames ms)"
proof -
  from assms(1) have "k = ''fusuline'' \<or> k = ''radiolarian'' \<or> k = ''foraminifera''
    \<or> k = ''diatom'' \<or> k = ''conodont'' \<or> k = ''ostracod'' \<or> k = ''acritarch''"
    unfolding supported_def by (simp only: list.set insert_iff empty_iff simp_thms)
  then show ?thesis
  proof (elim disjE)
    assume "k = ''fusuline''"
    then show ?thesis
      by (simp add: createModel_def fusuline_built[OF assms(2)] fusuline_texts[OF assms(2)]
            fusuline_names[OF assms(2)])
  next
    assume "k = ''radiolarian''"
    then show ?thesis
      by (simp add: createModel_def radiolarian_built[OF assms(2)] radiolarian_texts[OF assms(2)]
            radiolarian_names[OF assms(2)])
  next
    assume "k = ''foraminifera''"
    then show ?thesis
      by (simp add: createModel_def foraminifera_built[OF assms(2)] foraminifera_texts[OF assms(2)]
            foraminifera_names[OF assms(2)])
  next
    assume "k = ''diatom''"
    then show ?thesis
      by (simp add: createModel_def diatom_built[OF assms(2)] diatom_texts[OF assms(2)]
            diatom_names[OF assms(2)])
  next
    assume "k = ''conodont''"
    then show ?thesis
      by (simp add: createModel_def conodont_built[OF assms(2)] conodont_texts[OF assms(2)]
            conodont_names[OF assms(2)])
  next
    assume "k = ''ostracod''"
    then show ?thesis
      by (simp add: createModel_def ostracod_built[OF assms(2)] ostracod_texts[OF assms(2)]
            ostracod_names[OF assms(2)])
  next
    assume "k = ''acritarch''"
    then show ?thesis
      by (simp add: createModel_def acritarch_built[OF assms(2)] acritarch_texts[OF assms(2)]
            acritarch_names[OF assms(2)])
  qed
qed

lemma teardown_frame:
  "window_labels (teardown k s) = []"
  "nextRef (teardown k s) = nextRef s"
  "comps (teardown k s) = comps s"
  "objVisible (teardown k s) = objVisible s"
  "currentModel (teardown k s) = currentModel s"
  "fossilType (teardown k s) = k"
  "crossSectionEnabled (teardown k s) = False"
  "clippingPlanes (teardown k s) = []"
  by (simp_all add: teardown_def removeAllLabels_window_labels removeAllLabels_frame
        split: option.splits)

lemma teardown_detaches:
  "l \<in> set (window_labels s) \<Longrightarrow> parentNode (elements (teardown k s) (li_element l)) = None"
  by (simp add: teardown_def removeAllLabels_detaches split: option.splits)

lemma not_in_lights: "okind x = GroupObj \<Longrightarrow> x \<notin> set lights"
  by (auto simp add: lights_def)

lemma lights_no_labels: "filter (\<lambda>y. \<not> isCSS2DObject y) lights = lights" "labelsIn lights = []"
  by (simp_all add: lights_def)

lemma teardown_scene:
  assumes "loaded s"
  shows "children (scene (teardown k s)) = lights" and "okind (scene (teardown k s)) = SceneObj"
proof -
  show "children (scene (teardown k s)) = lights"
  proof (cases "currentModel s")
    case None
    with assms show ?thesis
      by (simp add: teardown_def loaded_def removeAllLabels_scene lights_no_labels)
  next
    case (Some m)
    with assms have c: "children (scene s) = lights @ [root m]" and g: "okind (root m) = GroupObj"
      by (simp_all add: loaded_def built_def)
    from g have "root m \<notin> set lights" by (rule not_in_lights)
    then have "remove1 (root m) (lights @ [root m]) = lights"
      by (simp add: remove1_append)
    with Some c show ?thesis
      by (simp add: teardown_def removeAllLabels_scene scene_remove_scene lights_no_labels)
  qed
  show "okind (scene (teardown k s)) = SceneObj"
    using assms
    by (simp add: teardown_def loaded_def removeAllLabels_scene scene_remove_scene
          split: option.splits)
qed

lemma loadFossil_unsupported:
  assumes "k \<notin> set supported"
  shows "loadFossil b k s =
           resetView (updateFossilInfo b [] (updateComponentToggles []
             (case currentModel s of
                Some m \<Rightarrow> scene_add (root m) (teardown k s) | None \<Rightarrow> teardown k s)))"
  using assms
  by (simp add: loadFossil_def Let_def createModel_unsupported teardown_frame
        split: option.splits)

lemma loadFossil_supported:
  assumes "createModel k (teardown k s) = Some (m, s')"
  shows "loadFossil b k s =
           resetView (updateFossilInfo b (getInfo b k) (updateComponentToggles (components m)
             (scene_add (root m) (s'\<lparr>currentModel := Some m\<rparr>))))"
  using assms
  by (simp add: loadFossil_def Let_def)

lemma tail_frame [simp]:
  "window_labels (resetView s) = window_labels s" "elements (resetView s) = elements s"
  "comps (resetView s) = comps s" "nextRef (resetView s) = nextRef s"
  "scene (resetView s) = scene s" "currentModel (resetView s) = currentModel s"
  "objVisible (resetView s) = objVisible s" "componentToggles (resetView s) = componentToggles s"
  "fossilInfo (resetView s) = fossilInfo s" "fossilType (resetView s) = fossilType s"
  "window_labels (updateFossilInfo b i s) = window_labels s" "elements (updateFossilInfo b i s) = elements s"
  "comps (updateFossilInfo b i s) = comps s" "nextRef (updateFossilInfo b i s) = nextRef s"
  "scene (updateFossilInfo b i s) = scene s" "currentModel (updateFossilInfo b i s) = currentModel s"
  "objVisible (updateFossilInfo b i s) = objVisible s"
  "componentToggles (updateFossilInfo b i s) = componentToggles s"
  "fossilType (updateFossilInfo b i s) = fossilType s"
  "window_labels (updateComponentToggles cs s) = window_labels s"
  "elements (updateComponentToggles cs s) = elements s"
  "comps (updateComponentToggles cs s) = comps s" "nextRef (updateComponentToggles cs s) = nextRef s"
  "scene (updateComponentToggles cs s) = scene s"
  "currentModel (updateComponentToggles cs s) = currentModel s"
  "objVisible (updateComponentToggles cs s) = objVisible s"
  "fossilType (updateComponentToggles cs s) = fossilType s"
  "window_labels (scene_add x s) = window_labels s" "elements (scene_add x s) = elements s"
  "comps (scene_add x s) = comps s" "nextRef (scene_add x s) = nextRef s"
  "currentModel (scene_add x s) = currentModel s" "objVisible (scene_add x s) = objVisible s"
  "fossilType (scene_add x s) = fossilType s"
  by (simp_all add: resetView_def updateFossilInfo_def updateComponentToggles_def scene_add_def)

lemma built_transfer:
  "built n sc (m, s) \<Longrightarrow> nextRef s' = nextRef s \<Longrightarrow> window_labels s' = window_labels s \<Longrightarrow>
     n' \<le> n \<Longrightarrow> built n' (scene s') (m, s')"
  by (auto simp add: built_def list_all_iff split: option.splits)

lemma sceneLabels_loaded:
  assumes "okind (scene s) = SceneObj" and "children (scene s) = lights @ [x]"
    and "okind x = GroupObj"
  shows "sceneLabels s = labelsIn (children x)"
proof -
  have 1: "\<not> isCSS2DObject (scene s)" "\<not> isCSS2DObject x"
    using assms by (simp_all add: isCSS2DObject_okind)
  have "sceneLabels s = labelsIn (children (scene s))"
    using 1 by (subst sceneLabels_def, subst traverse_hd) (simp add: labelsIn_def)
  also have "\<dots> = labelsIn [x]"
    by (simp add: assms(2) lights_no_labels)
  also have "\<dots> = labelsIn (children x)"
    using 1 by (simp add: labelsIn_def, subst traverse_hd) simp
  finally show ?thesis .
qed

text \<open>One load of a supported specimen, from a state as the loader leaves it.\<close>

lemma loadFossil_loaded:
  assumes "loaded s" and "k \<in> set supported"
  shows "loaded (loadFossil b k s)"
    and "labelTexts (loadFossil b k s) = factoryLabels k"
    and "map li_object (window_labels (loadFossil b k s)) = map Some (sceneLabels (loadFossil b k s))"
    and "list_all (\<lambda>l. case li_object l of Some r \<Rightarrow> nextRef s \<le> r | None \<Rightarrow> False)
           (window_labels (loadFossil b k s))"
proof -
  let ?t = "teardown k s"
  obtain m s' where cm: "createModel k ?t = Some (m, s')"
    and bl: "built (nextRef s) (scene ?t) (m, s')"
    and tx: "labelTexts s' = factoryLabels k"
    using createModel_supported[OF assms(2), of ?t] by (auto simp add: teardown_frame)
  let ?r = "loadFossil b k s"
  have eq: "?r = resetView (updateFossilInfo b (getInfo b k) (updateComponentToggles (components m)
             (scene_add (root m) (s'\<lparr>currentModel := Some m\<rparr>))))"
    by (rule loadFossil_supported[OF cm])
  have g: "okind (root m) = GroupObj" and sc: "scene s' = scene ?t"
    using bl by (simp_all add: built_def)
  have ch: "children (scene ?r) = lights @ [root m]"
    using not_in_lights[OF g]
    by (simp add: eq scene_add_def sc teardown_scene[OF assms(1)] remove1_idem)
  have ok: "okind (scene ?r) = SceneObj"
    by (simp add: eq scene_add_def sc teardown_scene[OF assms(1)])
  have cur: "currentModel ?r = Some m" by (simp add: eq)
  have b0: "built 0 (scene ?r) (m, ?r)"
    by (rule built_transfer[OF bl]) (simp_all add: eq)
  show "loaded ?r"
    by (simp add: loaded_def ok cur ch b0)
  show "labelTexts ?r = factoryLabels k"
    using tx by (simp add: labelTexts_def eq)
  have "sceneLabels ?r = labelsIn (children (root m))"
    by (rule sceneLabels_loaded[OF ok ch g])
  then show "map li_object (window_labels ?r) = map Some (sceneLabels ?r)"
    using b0 by (simp add: built_def)
  show "list_all (\<lambda>l. case li_object l of Some r \<Rightarrow> nextRef s \<le> r | None \<Rightarrow> False)
           (window_labels ?r)"
    using bl by (auto simp add: built_def eq list_all_iff split: option.splits)
qed

lemma loadFossil_labels_from_factory:
  assumes "k \<in> set supported"
  shows "\<exists>m s'. createModel k (teardown k s) = Some (m, s')
           \<and> window_labels (loadFossil b k s) = window_labels s'
           \<and> currentModel (loadFossil b k s) = Some m"
proof -
  obtain m s' where cm: "createModel k (teardown k s) = Some (m, s')"
    using createModel_supported[OF assms, of "teardown k s"] by (auto simp add: teardown_frame)
  then show ?thesis
    by (simp add: loadFossil_supported[OF cm])
qed

lemma loaded_init: "loaded init_viewer"
  by (simp add: loaded_def init_viewer_def)

lemma loadSequence_loaded:
  "loaded s \<Longrightarrow> set ks \<subseteq> set supported \<Longrightarrow> loaded (loadSequence b ks s)"
  unfolding loadSequence_def
  by (induction ks arbitrary: s) (simp_all add: loadFossil_loaded(1))

lemma loaded_labels_allocated:
  "loaded s \<Longrightarrow> l \<in> set (window_labels s) \<Longrightarrow> \<exists>r. li_object l = Some r \<and> r < nextRef s"
  by (cases "currentModel s") (auto simp add: loaded_def built_def list_all_iff split: option.splits)

lemma teardown_sceneLabels:
  assumes "loaded s"
  shows "sceneLabels (teardown k s) = []"
proof -
  have "\<not> isCSS2DObject (scene (teardown k s))"
    by (simp add: isCSS2DObject_okind teardown_scene[OF assms])
  then have "sceneLabels (teardown k s) = labelsIn (children (scene (teardown k s)))"
    by (subst sceneLabels_def, subst traverse_hd) (simp add: labelsIn_def)
  then show ?thesis
    by (simp add: teardown_scene[OF assms] lights_no_labels)
qed

lemma loaded_demo: "loaded demo_viewer"
  by (simp add: loaded_def demo_viewer_def demo_root_def built_def init_viewer_def)

text \<open>
  A label that hangs below a model is not a child of the scene, so \<^verbatim>\<open>scene.remove\<close> does
  not take it out: called on its own while the model is attached, \<^verbatim>\<open>removeAllLabels\<close>
  leaves such a label in the scene graph. The loader detaches the model first.
\<close>

lemma nested_label_stays_in_scene_graph:
  "sceneLabels demo_viewer = [8] \<and> sceneLabels (removeAllLabels demo_viewer) = [8]"
  by (simp add: sceneLabels_def removeAllLabels_scene)
     (simp add: demo_viewer_def demo_root_def lights_def)



text \<open>
  C1. Start from the state \<^verbatim>\<open>init()\<close> has built and load any sequence of supported
  specimens, then one more, \<open>k\<close>. In that last load the teardown leaves the global label
  array empty and no label anywhere in the scene; the factory of \<open>k\<close> runs on that state,
  and after the load the global array is the array the factory left: it holds exactly the
  labels the factory of \<open>k\<close> registers (the same texts in the same order), these are
  exactly the labels in the scene graph, and each of them was created by this load: it
  was not in the array before, and its reference is not below the allocation mark the
  load started from.
\<close>

theorem loads_hold_current_labels_only:
  assumes "set ks \<subseteq> set supported" and "k \<in> set supported"
  shows "window_labels (teardown k (loadSequence b ks init_viewer)) = []
       \<and> sceneLabels (teardown k (loadSequence b ks init_viewer)) = []
       \<and> (\<exists>m s'. createModel k (teardown k (loadSequence b ks init_viewer)) = Some (m, s')
              \<and> window_labels (loadFossil b k (loadSequence b ks init_viewer)) = window_labels s')
       \<and> labelTexts (loadFossil b k (loadSequence b ks init_viewer)) = factoryLabels k
       \<and> map li_object (window_labels (loadFossil b k (loadSequence b ks init_viewer)))
           = map Some (sceneLabels (loadFossil b k (loadSequence b ks init_viewer)))
       \<and> (\<forall>l \<in> set (window_labels (loadFossil b k (loadSequence b ks init_viewer))).
             l \<notin> set (window_labels (loadSequence b ks init_viewer))
             \<and> (\<exists>r. li_object l = Some r \<and> nextRef (loadSequence b ks init_viewer) \<le> r))"
proof -
  let ?s = "loadSequence b ks init_viewer"
  have ld: "loaded ?s"
    by (rule loadSequence_loaded[OF loaded_init assms(1)])
  note r = loadFossil_loaded[OF ld assms(2), of b]
  have fresh: "\<exists>r. li_object l = Some r \<and> nextRef ?s \<le> r"
    if "l \<in> set (window_labels (loadFossil b k ?s))" for l
    using r(4) that by (auto simp add: list_all_iff split: option.splits)
  have new: "l \<notin> set (window_labels ?s)"
    if "l \<in> set (window_labels (loadFossil b k ?s))" for l
    using fresh[OF that] loaded_labels_allocated[OF ld, of l] by auto
  have pushed: "\<exists>m s'. createModel k (teardown k ?s) = Some (m, s')
           \<and> window_labels (loadFossil b k ?s) = window_labels s'"
    using loadFossil_labels_from_factory[OF assms(2), of ?s b] by blast
  show ?thesis
    using r(2) r(3) fresh new pushed teardown_frame(1)[of k ?s]
      teardown_sceneLabels[OF ld, of k]
    by blast
qed

theorem loads_hold_current_labels_only_witness:
  "labelTexts (loadFossil demo_browser ''radiolarian''
      (loadSequence demo_browser [''fusuline'', ''diatom''] init_viewer))
     = [''Siliceous Skeleton'', ''Central Capsule'', ''Radial Spines'', ''Axopods'']
   \<and> length (window_labels (loadFossil demo_browser ''radiolarian''
      (loadSequence demo_browser [''fusuline'', ''diatom''] init_viewer))) = 4
   \<and> length (sceneLabels (loadFossil demo_browser ''radiolarian''
      (loadSequence demo_browser [''fusuline'', ''diatom''] init_viewer))) = 4"
proof -
  have h1: "set [''fusuline'', ''diatom''] \<subseteq> set supported" by (simp add: supported_def)
  have h2: "''radiolarian'' \<in> set supported" by (simp add: supported_def)
  let ?s = "loadFossil demo_browser ''radiolarian''
      (loadSequence demo_browser [''fusuline'', ''diatom''] init_viewer)"
  from loads_hold_current_labels_only[OF h1 h2, of demo_browser]
  have t: "labelTexts ?s = factoryLabels ''radiolarian''"
    and o: "map li_object (window_labels ?s) = map Some (sceneLabels ?s)"
    by blast+
  from t have t': "labelTexts ?s
     = [''Siliceous Skeleton'', ''Central Capsule'', ''Radial Spines'', ''Axopods'']"
    by (simp add: factoryLabels_def)
  from arg_cong[OF t', of length] have n: "length (window_labels ?s) = 4"
    by (simp add: labelTexts_def)
  from arg_cong[OF o, of length] n have "length (sceneLabels ?s) = 4" by simp
  with t' n show ?thesis by simp
qed

lemma loadFossil_unsupported_fields:
  assumes "k \<notin> set supported"
  shows "window_labels (loadFossil b k s) = []"
    and "componentToggles (loadFossil b k s) = []"
    and "fossilInfo (loadFossil b k s) = []"
    and "fossilType (loadFossil b k s) = k"
    and "crossSectionEnabled (loadFossil b k s) = False"
    and "clippingPlanes (loadFossil b k s) = []"
    and "currentModel (loadFossil b k s) = currentModel s"
    and "comps (loadFossil b k s) = comps s"
    and "objVisible (loadFossil b k s) = objVisible s"
    and "elements (loadFossil b k s) = elements (teardown k s)"
  by (simp_all add: loadFossil_unsupported[OF assms] teardown_frame resetView_def
        updateFossilInfo_def updateComponentToggles_def trim_def scene_add_def
        split: option.splits)

lemma teardown_scene_eq:
  assumes "loaded s"
  shows "scene (teardown k s) = set_children (scene s) lights"
proof -
  have "scene (teardown k s) = set_children (scene s) (children (scene (teardown k s)))"
    by (simp add: teardown_def removeAllLabels_scene scene_remove_scene split: option.splits)
  then show ?thesis by (simp add: teardown_scene[OF assms])
qed

lemma loadFossil_unsupported_scene:
  assumes "k \<notin> set supported" and "loaded s"
  shows "scene (loadFossil b k s) = scene s"
proof (cases "currentModel s")
  case None
  with assms(2) have "children (scene s) = lights" by (simp add: loaded_def)
  then have "set_children (scene s) lights = scene s"
    by (metis set_children_same)
  with None show ?thesis
    by (simp add: loadFossil_unsupported[OF assms(1)] teardown_scene_eq[OF assms(2)])
next
  case (Some m)
  with assms(2) have c: "children (scene s) = lights @ [root m]" and g: "okind (root m) = GroupObj"
    by (simp_all add: loaded_def built_def)
  from c have "set_children (scene s) (lights @ [root m]) = scene s"
    by (metis set_children_same)
  with Some not_in_lights[OF g] show ?thesis
    by (simp add: loadFossil_unsupported[OF assms(1)] teardown_scene_eq[OF assms(2)]
          scene_add_def remove1_idem)
qed

text \<open>
  C2, as the code has it. \<^verbatim>\<open>loadFossil\<close> does not check its key. For a key without a case
  the teardown runs all the same: the global label array is emptied, the element of every
  label that was in it is taken out of the document, the toggle list and the description
  panel are emptied and \<^verbatim>\<open>fossilType\<close> becomes the key. No factory runs, so the model
  that was current stays current, with its component records and all \<^verbatim>\<open>visible\<close> flags
  as they were, and it is put back into the scene where it was.
\<close>

theorem unsupported_key_runs_teardown:
  assumes "k \<notin> set supported"
  shows "window_labels (loadFossil b k s) = []
       \<and> (\<forall>l \<in> set (window_labels s).
             parentNode (elements (loadFossil b k s) (li_element l)) = None)
       \<and> componentToggles (loadFossil b k s) = []
       \<and> fossilInfo (loadFossil b k s) = []
       \<and> fossilType (loadFossil b k s) = k
       \<and> crossSectionEnabled (loadFossil b k s) = False
       \<and> clippingPlanes (loadFossil b k s) = []
       \<and> currentModel (loadFossil b k s) = currentModel s
       \<and> comps (loadFossil b k s) = comps s
       \<and> objVisible (loadFossil b k s) = objVisible s
       \<and> (loaded s \<longrightarrow> scene (loadFossil b k s) = scene s)"
  using assms
  by (simp add: loadFossil_unsupported_fields loadFossil_unsupported_scene teardown_detaches)

theorem unsupported_key_runs_teardown_witness:
  "''trilobite'' \<notin> set supported
   \<and> window_labels demo_viewer = [\<lparr>li_object = Some 8, li_element = 7, li_component = Some 6\<rparr>]
   \<and> window_labels (loadFossil demo_browser ''trilobite'' demo_viewer) = []
   \<and> parentNode (elements (loadFossil demo_browser ''trilobite'' demo_viewer) 7) = None
   \<and> fossilType (loadFossil demo_browser ''trilobite'' demo_viewer) = ''trilobite''
   \<and> currentModel (loadFossil demo_browser ''trilobite'' demo_viewer)
       = Some \<lparr>root = demo_root, components = [6]\<rparr>
   \<and> scene (loadFossil demo_browser ''trilobite'' demo_viewer) = scene demo_viewer"
proof -
  have h: "''trilobite'' \<notin> set supported" by (simp add: supported_def)
  have w: "window_labels demo_viewer = [\<lparr>li_object = Some 8, li_element = 7, li_component = Some 6\<rparr>]"
    "currentModel demo_viewer = Some \<lparr>root = demo_root, components = [6]\<rparr>"
    by (simp_all add: demo_viewer_def)
  from unsupported_key_runs_teardown[OF h, of demo_browser demo_viewer] h w loaded_demo
  show ?thesis by simp
qed

text \<open>
  C2 as stated fails: after a radiolarian is loaded, a load with the key \<^verbatim>\<open>trilobite\<close> is
  not rejected. The four labels are gone from the global array, so the state is not the
  one before the call.
\<close>

theorem unsupported_key_not_rejected:
  "''trilobite'' \<notin> set supported
   \<and> labelTexts (loadFossil demo_browser ''radiolarian'' init_viewer)
       = [''Siliceous Skeleton'', ''Central Capsule'', ''Radial Spines'', ''Axopods'']
   \<and> labelTexts (loadFossil demo_browser ''trilobite''
        (loadFossil demo_browser ''radiolarian'' init_viewer)) = []
   \<and> loadFossil demo_browser ''trilobite'' (loadFossil demo_browser ''radiolarian'' init_viewer)
       \<noteq> loadFossil demo_browser ''radiolarian'' init_viewer"
proof -
  have h: "''trilobite'' \<notin> set supported" "''radiolarian'' \<in> set supported"
    by (simp_all add: supported_def)
  let ?s = "loadFossil demo_browser ''radiolarian'' init_viewer"
  have t: "labelTexts ?s = [''Siliceous Skeleton'', ''Central Capsule'', ''Radial Spines'', ''Axopods'']"
    using loadFossil_loaded(2)[OF loaded_init h(2), of demo_browser] by (simp add: factoryLabels_def)
  have e: "labelTexts (loadFossil demo_browser ''trilobite'' ?s) = []"
    by (simp add: labelTexts_def loadFossil_unsupported_fields(1)[OF h(1)])
  from t e have "loadFossil demo_browser ''trilobite'' ?s \<noteq> ?s" by auto
  with h t e show ?thesis by simp
qed

text \<open>
  C3, as the code has it. Registering a component is a plain \<^verbatim>\<open>push\<close>: it appends the
  record to the list whatever its name, and cannot fail. After every load of a supported
  specimen the names in the current model's list are nevertheless pairwise distinct,
  because each factory registers distinct names.
\<close>

theorem registration_appends_and_names_are_unique:
  assumes "k \<in> set supported"
  shows "components (pushComponent c m) = components m @ [c]
       \<and> (\<exists>m'. currentModel (loadFossil b k s) = Some m'
              \<and> distinct (map (\<lambda>c. c_name (comps (loadFossil b k s) c)) (components m')))"
proof -
  obtain m' s' where cm: "createModel k (teardown k s) = Some (m', s')"
    and d: "distinct (componentNames (m', s'))"
    using createModel_supported[OF assms, of "teardown k s"] by (auto simp add: teardown_frame)
  have "currentModel (loadFossil b k s) = Some m'" "comps (loadFossil b k s) = comps s'"
    by (simp_all add: loadFossil_supported[OF cm])
  with d show ?thesis
    by (simp add: pushComponent_def componentNames_def)
qed

theorem registration_appends_and_names_are_unique_witness:
  "components (pushComponent 7 \<lparr>root = demo_root, components = [6]\<rparr>) = [6, 7]
   \<and> (\<exists>m'. currentModel (loadFossil demo_browser ''conodont'' init_viewer) = Some m'
          \<and> distinct (map (\<lambda>c. c_name (comps (loadFossil demo_browser ''conodont'' init_viewer) c))
                (components m')))"
proof -
  have h: "''conodont'' \<in> set supported" by (simp add: supported_def)
  from registration_appends_and_names_are_unique[OF h,
      of 7 "\<lparr>root = demo_root, components = [6]\<rparr>" demo_browser init_viewer]
  show ?thesis by simp
qed

text \<open>
  C3 as stated fails: a second part named \<^verbatim>\<open>shell\<close> is registered without any error, and
  the list then holds the name twice; pushing a record that is already in the list
  appends it again.
\<close>

theorem duplicate_name_is_registered:
  "componentNames
     (createPart MeshPart ''shell'' ''Outer Shell'' ''Outer Shell (Test)''
        (createPart MeshPart ''shell'' ''Outer Shell'' ''Outer Shell (Test)''
           (newModel init_viewer)))
     = [''shell'', ''shell'']
   \<and> components (pushComponent 6 \<lparr>root = demo_root, components = [6]\<rparr>) = [6, 6]"
proof -
  have w: "window_labels init_viewer = []" by (simp add: init_viewer_def)
  note b = built_newModel[OF w]
  show ?thesis
    by (simp add: names_createPart[OF built_createPart[OF b]] names_createPart[OF b]
          names_newModel pushComponent_def)
qed

section \<open>Segmenting a description\<close>








text \<open>
  Why the Overview paragraph is asked for: the citation step is skipped when no section
  was found at all, so a document with a citation and nothing else the segmenter
  recognises gets no Source section.
\<close>

lemma bare_document_has_no_sections: "sectionsOf demo_browser demo_document_bare = []"
  by (simp add: sectionsOf_def addSource_def headingSections_def overviewSection_def
        headingSection_def findHeading_def querySelector_def querySelectorAll_def
        querySelector_h3_plus_p_def demo_document_bare_def)

end
